theory Spec2Isabelle
  imports Complex_Main
begin

section \<open>Values of the formula language\<close>

text \<open>
  A number of the host language is either \<open>NaN\<close> or a finite number. Finite numbers are
  idealised as reals: rounding, the infinities and the sign of zero are not represented.
\<close>

datatype jsnum = NaN | Fin real

text \<open>
  The raw operands the type-coercion runtime receives: \<open>undefined\<close>, \<open>null\<close>, a boolean,
  a number, a string, a date object (carried with its numeric value, the result of
  converting the date to a number) and an error marker (an \<open>Error\<close> object, carried with
  its message).
\<close>

datatype val =
    VUndefined
  | VNull
  | VBool bool
  | VNum jsnum
  | VStr string
  | VDate jsnum
  | VError string

text \<open>
  The exceptions the core raises: \<open>DG.TypeError(operator)\<close>, a \<open>SyntaxError\<close> whose
  message is a localised key applied to an argument, a \<open>TypeError\<close> raised by the host
  itself (a call of something that is not a function, a property read on \<open>null\<close>), and an
  exception thrown by a context callback.
\<close>

datatype exn =
    DGTypeError string
  | SyntaxError string string
  | HostTypeError string
  | ContextError string

subsection \<open>The host's primitives\<close>

text \<open>
  The conversions between strings and numbers, the text of objects, date recognition and
  date parsing, the numeric operators \<open>* / % Math.pow\<close> and the identity of objects belong
  to the host language and to \<open>formula_common\<close>, neither of which is part of the sources
  at hand. They are parameters of the model, collected in one record.
\<close>

record host =
  h_strToNum :: "string \<Rightarrow> jsnum"
  h_numToStr :: "jsnum \<Rightarrow> string"
  h_objToStr :: "val \<Rightarrow> string"
  h_isDateString :: "string \<Rightarrow> bool"
  h_parseDate :: "string \<Rightarrow> jsnum"
  h_arith :: "string \<Rightarrow> jsnum \<Rightarrow> jsnum \<Rightarrow> jsnum"
  h_sameObject :: "val \<Rightarrow> val \<Rightarrow> bool"

fun jplus :: "jsnum \<Rightarrow> jsnum \<Rightarrow> jsnum" where
  "jplus (Fin x) (Fin y) = Fin (x + y)"
| "jplus _ _ = NaN"

fun jminus :: "jsnum \<Rightarrow> jsnum \<Rightarrow> jsnum" where
  "jminus (Fin x) (Fin y) = Fin (x - y)"
| "jminus _ _ = NaN"

fun jneg :: "jsnum \<Rightarrow> jsnum" where
  "jneg (Fin x) = Fin (- x)"
| "jneg NaN = NaN"

fun jless :: "jsnum \<Rightarrow> jsnum \<Rightarrow> bool" where
  "jless (Fin x) (Fin y) = (x < y)"
| "jless _ _ = False"

fun jlesseq :: "jsnum \<Rightarrow> jsnum \<Rightarrow> bool" where
  "jlesseq (Fin x) (Fin y) = (x \<le> y)"
| "jlesseq _ _ = False"

text \<open>Strings compare by the codes of their characters, position by position.\<close>

fun str_less :: "string \<Rightarrow> string \<Rightarrow> bool" where
  "str_less [] [] = False"
| "str_less [] (y # ys) = True"
| "str_less (x # xs) [] = False"
| "str_less (x # xs) (y # ys) =
     (if (of_char x :: nat) < of_char y then True
      else if (of_char y :: nat) < of_char x then False
      else str_less xs ys)"

definition str_lesseq :: "string \<Rightarrow> string \<Rightarrow> bool" where
  "str_lesseq s t = (\<not> str_less t s)"

text \<open>\<open>Number(x)\<close>. The text of an error object is taken not to be a numeral.\<close>

fun js_Number :: "host \<Rightarrow> val \<Rightarrow> jsnum" where
  "js_Number h VUndefined = NaN"
| "js_Number h VNull = Fin 0"
| "js_Number h (VBool b) = Fin (if b then 1 else 0)"
| "js_Number h (VNum n) = n"
| "js_Number h (VStr s) = h_strToNum h s"
| "js_Number h (VDate t) = t"
| "js_Number h (VError m) = NaN"

text \<open>The global \<open>isNaN(x)\<close> converts its argument to a number first.\<close>

definition js_isNaN :: "host \<Rightarrow> val \<Rightarrow> bool" where
  "js_isNaN h v = (js_Number h v = NaN)"

text \<open>\<open>String(x)\<close>.\<close>

fun js_String :: "host \<Rightarrow> val \<Rightarrow> string" where
  "js_String h VUndefined = ''undefined''"
| "js_String h VNull = ''null''"
| "js_String h (VBool b) = (if b then ''true'' else ''false'')"
| "js_String h (VNum n) = h_numToStr h n"
| "js_String h (VStr s) = s"
| "js_String h (VDate t) = h_objToStr h (VDate t)"
| "js_String h (VError m) = h_objToStr h (VError m)"

text \<open>Truthiness: \<open>undefined\<close>, \<open>null\<close>, \<open>false\<close>, \<open>0\<close>, \<open>NaN\<close> and \<open>""\<close> are falsy.\<close>

fun truthy :: "val \<Rightarrow> bool" where
  "truthy VUndefined = False"
| "truthy VNull = False"
| "truthy (VBool b) = b"
| "truthy (VNum n) = (n \<noteq> NaN \<and> n \<noteq> Fin 0)"
| "truthy (VStr s) = (s \<noteq> [])"
| "truthy (VDate t) = True"
| "truthy (VError m) = True"

text \<open>\<open>x instanceof Error\<close>.\<close>

fun isError :: "val \<Rightarrow> bool" where
  "isError (VError m) = True"
| "isError _ = False"

text \<open>\<open>x !== x\<close>, which holds of the number \<open>NaN\<close> alone.\<close>

definition isNaNValue :: "val \<Rightarrow> bool" where
  "isNaNValue v = (v = VNum NaN)"

subsection \<open>Helpers of the surrounding system\<close>

text \<open>
  Modelled from the spec: \<open>SC.empty\<close>, the host's null test, is not in the sources. A
  value is empty if it is null, undefined or the empty string.
\<close>

fun sc_empty :: "val \<Rightarrow> bool" where
  "sc_empty VUndefined = True"
| "sc_empty VNull = True"
| "sc_empty (VStr s) = (s = [])"
| "sc_empty _ = False"

text \<open>
  Modelled from the spec: \<open>DG.isDate\<close> is not in the sources. It holds of a value that
  is already a date-typed value.
\<close>

fun dg_isDate :: "val \<Rightarrow> bool" where
  "dg_isDate (VDate t) = True"
| "dg_isDate _ = False"

text \<open>
  Modelled from the spec: \<open>DG.isDateString\<close> is not in the sources. It holds of a string
  the host recognises as date-formatted, and of nothing else.
\<close>

fun dg_isDateString :: "host \<Rightarrow> val \<Rightarrow> bool" where
  "dg_isDateString h (VStr s) = h_isDateString h s"
| "dg_isDateString h _ = False"

text \<open>
  Modelled from the spec: \<open>DG.createDate\<close> is not in the sources. Applied to a number it
  constructs the date with that numeric value.
\<close>

definition dg_createDate :: "jsnum \<Rightarrow> val" where
  "dg_createDate n = VDate n"

text \<open>
  Modelled from the spec: \<open>Number(DG.createDate(x))\<close>, the numeric value of the date
  constructed from \<open>x\<close>: the host's date parser on a string, the value itself on a date or
  a number, and \<open>NaN\<close> where no date can be constructed.
\<close>

fun dg_createDateNumber :: "host \<Rightarrow> val \<Rightarrow> jsnum" where
  "dg_createDateNumber h (VStr s) = h_parseDate h s"
| "dg_createDateNumber h (VDate t) = t"
| "dg_createDateNumber h (VNum n) = n"
| "dg_createDateNumber h _ = NaN"

text \<open>
  \<open>DG.Formula.whiteSpaceRegExp\<close>, \<open>/^[\s\uFEFF\xA0]+$/\<close>: a non-empty string of white
  space. Characters are bytes here, so the white space is tab, line feed, vertical tab,
  form feed, carriage return, space and the no-break space.
\<close>

definition isWhiteSpaceChar :: "char \<Rightarrow> bool" where
  "isWhiteSpaceChar c = (of_char c \<in> {9, 10, 11, 12, 13, 32, 160 :: nat})"

definition whiteSpaceRegExp_test :: "string \<Rightarrow> bool" where
  "whiteSpaceRegExp_test s = (s \<noteq> [] \<and> list_all isWhiteSpaceChar s)"

text \<open>\<open>(typeof x === "string") && DG.Formula.whiteSpaceRegExp.test(x)\<close>.\<close>

fun isSpaceStr :: "val \<Rightarrow> bool" where
  "isSpaceStr (VStr s) = whiteSpaceRegExp_test s"
| "isSpaceStr _ = False"

section \<open>The type-coercion runtime\<close>

record classification =
  isNumeric1 :: bool
  isNumeric2 :: bool
  isDate1 :: bool
  isDate2 :: bool
  empty1 :: bool
  empty2 :: bool
  num1 :: jsnum
  num2 :: jsnum

text \<open>
  \<open>arithmeticStarter\<close> returns either a value its caller hands back unchanged (an error
  marker or \<open>NaN\<close>) or the classification of the two operands.
\<close>

datatype starter = Propagate val | Classified classification

text \<open>The numeric coercion of one operand, as \<open>arithmeticStarter\<close> computes it.\<close>

definition starterNum :: "host \<Rightarrow> val \<Rightarrow> jsnum" where
  "starterNum h x =
     (if \<not> sc_empty x \<and> \<not> isSpaceStr x
      then (if js_isNaN h x then dg_createDateNumber h x else js_Number h x)
      else NaN)"

text \<open>The date test of one operand, shared by the starter and the dispatcher.\<close>

definition dateInterpretable :: "host \<Rightarrow> val \<Rightarrow> bool" where
  "dateInterpretable h x = (dg_isDate x \<or> (\<not> isSpaceStr x \<and> dg_isDateString h x))"

definition arithmeticStarter :: "host \<Rightarrow> val \<Rightarrow> val \<Rightarrow> starter" where
  "arithmeticStarter h iOperand1 iOperand2 =
     (let result = \<lparr>
            isNumeric1 = (starterNum h iOperand1 \<noteq> NaN),
            isNumeric2 = (starterNum h iOperand2 \<noteq> NaN),
            isDate1 = dateInterpretable h iOperand1,
            isDate2 = dateInterpretable h iOperand2,
            empty1 = sc_empty iOperand1,
            empty2 = sc_empty iOperand2,
            num1 = starterNum h iOperand1,
            num2 = starterNum h iOperand2 \<rparr>
      in if isError iOperand1 then Propagate iOperand1
         else if isError iOperand2 then Propagate iOperand2
         else if isNaNValue iOperand1 \<or> isNaNValue iOperand2 then Propagate (VNum NaN)
         else Classified result)"

definition arithmeticFinisher :: "classification \<Rightarrow> string \<Rightarrow> exn + val" where
  "arithmeticFinisher iResult iOperator =
     (if empty1 iResult \<and> empty2 iResult then Inr (VStr [])
      else if (empty1 iResult \<and> isNumeric2 iResult) \<or> (isNumeric1 iResult \<and> empty2 iResult)
      then Inr (VStr [])
      else Inl (DGTypeError iOperator))"

text \<open>
  \<open>stringFinisher\<close> reads four properties of its first argument. The comparison functions
  pass the classification; \<open>add\<close> passes a raw operand in that position. A property read
  on a value that is not a classification yields \<open>undefined\<close>, which is falsy; on \<open>null\<close>
  or \<open>undefined\<close> the read itself raises the host's \<open>TypeError\<close>.
\<close>

datatype finisher_subject = OfRecord classification | OfValue val

fun subjectFlags :: "finisher_subject \<Rightarrow> exn + (bool \<times> bool \<times> bool \<times> bool)" where
  "subjectFlags (OfRecord r) = Inr (empty1 r, empty2 r, isNumeric1 r, isNumeric2 r)"
| "subjectFlags (OfValue VUndefined) = Inl (HostTypeError ''cannot read property empty1'')"
| "subjectFlags (OfValue VNull) = Inl (HostTypeError ''cannot read property empty1'')"
| "subjectFlags (OfValue v) = Inr (False, False, False, False)"

text \<open>The operator argument is \<open>None\<close> when the caller passes none (\<open>undefined\<close>).\<close>

definition stringFinisher ::
  "host \<Rightarrow> finisher_subject \<Rightarrow> val \<Rightarrow> val \<Rightarrow> string option \<Rightarrow> exn + val" where
  "stringFinisher h iResult iOperand1 iOperand2 iOperator =
     (case subjectFlags iResult of
        Inl e \<Rightarrow> Inl e
      | Inr (e1, e2, n1, n2) \<Rightarrow>
          if e1 \<and> e2 then Inr (VStr [])
          else if (e1 \<and> n2) \<or> (n1 \<and> e2) then Inr (VStr [])
          else (let s1 = js_String h iOperand1; s2 = js_String h iOperand2
                in if iOperator = Some ''+'' then Inr (VStr (s1 @ s2))
                   else if iOperator = Some ''<'' then Inr (VBool (str_less s1 s2))
                   else if iOperator = Some ''<='' then Inr (VBool (str_lesseq s1 s2))
                   else Inr VUndefined))"

text \<open>
  \<open>DG.Formula.add\<close>. Its last line calls \<open>stringFinisher(iOperand1, iOperand2, '+')\<close>, three
  arguments for four parameters: the left operand stands where the classification is
  expected, the right operand and the text \<open>'+'\<close> are the two strings, and no operator
  is given.
\<close>

definition add :: "host \<Rightarrow> val \<Rightarrow> val \<Rightarrow> exn + val" where
  "add h iOperand1 iOperand2 =
     (case arithmeticStarter h iOperand1 iOperand2 of
        Propagate v \<Rightarrow> Inr v
      | Classified result \<Rightarrow>
          if isNumeric1 result \<and> isNumeric2 result
          then (if isDate1 result \<noteq> isDate2 result
                then Inr (dg_createDate (jplus (num1 result) (num2 result)))
                else Inr (VNum (jplus (num1 result) (num2 result))))
          else if empty1 result \<and> empty2 result then Inr (VStr [])
          else if (empty1 result \<and> isNumeric2 result) \<or> (isNumeric1 result \<and> empty2 result)
          then Inr (VStr [])
          else if empty1 result \<and> \<not> empty2 result then Inr (VStr (js_String h iOperand2))
          else if \<not> empty1 result \<and> empty2 result then Inr (VStr (js_String h iOperand1))
          else stringFinisher h (OfValue iOperand1) iOperand2 (VStr ''+'') None)"

text \<open>
  \<open>DG.Formula.subtract\<close>. The operator it reports is the minus sign U+2212, written
  here as the three bytes of its UTF-8 form.
\<close>

definition minusSign :: string where
  "minusSign = [CHR 0xE2, CHR 0x88, CHR 0x92]"

definition subtract :: "host \<Rightarrow> val \<Rightarrow> val \<Rightarrow> exn + val" where
  "subtract h iOperand1 iOperand2 =
     (case arithmeticStarter h iOperand1 iOperand2 of
        Propagate v \<Rightarrow> Inr v
      | Classified result \<Rightarrow>
          if isNumeric1 result \<and> isNumeric2 result
          then (if isDate1 result \<and> \<not> isDate2 result
                then Inr (dg_createDate (jminus (num1 result) (num2 result)))
                else Inr (VNum (jminus (num1 result) (num2 result))))
          else arithmeticFinisher result minusSign)"

definition lessThan_dg :: "host \<Rightarrow> val \<Rightarrow> val \<Rightarrow> exn + val" where
  "lessThan_dg h iOperand1 iOperand2 =
     (case arithmeticStarter h iOperand1 iOperand2 of
        Propagate v \<Rightarrow> Inr v
      | Classified result \<Rightarrow>
          if isNumeric1 result \<and> isNumeric2 result
          then Inr (VBool (jless (num1 result) (num2 result)))
          else stringFinisher h (OfRecord result) iOperand1 iOperand2 (Some ''<''))"

definition lessThanOrEqual :: "host \<Rightarrow> val \<Rightarrow> val \<Rightarrow> exn + val" where
  "lessThanOrEqual h iOperand1 iOperand2 =
     (case arithmeticStarter h iOperand1 iOperand2 of
        Propagate v \<Rightarrow> Inr v
      | Classified result \<Rightarrow>
          if isNumeric1 result \<and> isNumeric2 result
          then Inr (VBool (jlesseq (num1 result) (num2 result)))
          else stringFinisher h (OfRecord result) iOperand1 iOperand2 (Some ''<=''))"

text \<open>The numeric coercion of one operand, as \<open>binaryOperator\<close> computes it.\<close>

definition operatorNum :: "host \<Rightarrow> val \<Rightarrow> jsnum" where
  "operatorNum h x = (if \<not> sc_empty x \<and> \<not> isSpaceStr x then js_Number h x else NaN)"

text \<open>
  \<open>DG.Formula.binaryOperator\<close>. The default branch of its switch reads
  \<open>throw new SyntaxError('DG.Formula.SyntaxErrorInvalidOperator').loc(iOperator)\<close>: the
  method \<open>loc\<close> is looked up on the error object, not on the message, and an error object
  has no such method, so the call raises the host's \<open>TypeError\<close> before anything is thrown
  by the \<open>throw\<close> itself.
\<close>

definition binaryOperator :: "host \<Rightarrow> string \<Rightarrow> val \<Rightarrow> val \<Rightarrow> exn + val" where
  "binaryOperator h iOperator iOperand1 iOperand2 =
     (let empty1 = sc_empty iOperand1;
          empty2 = sc_empty iOperand2;
          isDate1 = dateInterpretable h iOperand1;
          isDate2 = dateInterpretable h iOperand2;
          num1 = operatorNum h iOperand1;
          num2 = operatorNum h iOperand2;
          isNumeric1 = (num1 \<noteq> NaN);
          isNumeric2 = (num2 \<noteq> NaN)
      in if isDate1 \<or> isDate2 then Inl (DGTypeError iOperator)
         else if isNumeric1 \<and> isNumeric2
         then (if iOperator = ''*'' \<or> iOperator = ''/'' \<or> iOperator = ''%'' \<or> iOperator = ''^''
               then Inr (VNum (h_arith h iOperator num1 num2))
               else Inl (HostTypeError ''loc is not a function''))
         else if isError iOperand1 then Inr iOperand1
         else if isError iOperand2 then Inr iOperand2
         else if isNaNValue iOperand1 \<or> isNaNValue iOperand2 then Inr (VNum NaN)
         else if empty1 \<and> empty2 then Inr (VStr [])
         else if (empty1 \<and> isNumeric2) \<or> (isNumeric1 \<and> empty2) then Inr (VStr [])
         else Inl (DGTypeError iOperator))"

section \<open>Syntax trees and evaluation contexts\<close>

datatype node =
    BooleanLiteral bool
  | NumericLiteral jsnum
  | StringLiteral string
  | Variable string
  | FunctionCall string "node list"
  | UnaryExpression string node
  | BinaryExpression string node node
  | ConditionalExpression node node node

text \<open>
  The capabilities of the context that evaluation uses are not part of the sources at
  hand; they are parameters of the model. A context is an object with a state of its own,
  so each capability takes that state, of some type \<open>'s\<close>, and returns the new state with
  its outcome: a function with a side effect, a counter say, is a context of the model.
  Either capability may throw.
\<close>

record ('e, 's) eval_context =
  evaluateVariable :: "string \<Rightarrow> 'e option \<Rightarrow> 's \<Rightarrow> (exn + val) \<times> 's"
  evaluateFunction :: "string \<Rightarrow> val list \<Rightarrow> 's \<Rightarrow> (exn + val) \<times> 's"

fun strictEquals :: "host \<Rightarrow> val \<Rightarrow> val \<Rightarrow> bool" where
  "strictEquals h VUndefined VUndefined = True"
| "strictEquals h VNull VNull = True"
| "strictEquals h (VBool x) (VBool y) = (x = y)"
| "strictEquals h (VNum x) (VNum y) = (x \<noteq> NaN \<and> x = y)"
| "strictEquals h (VStr s) (VStr t) = (s = t)"
| "strictEquals h (VDate x) (VDate y) = h_sameObject h (VDate x) (VDate y)"
| "strictEquals h (VError x) (VError y) = h_sameObject h (VError x) (VError y)"
| "strictEquals h _ _ = False"

definition unaryOperator :: "host \<Rightarrow> string \<Rightarrow> val \<Rightarrow> val" where
  "unaryOperator h operator v =
     (if operator = ''+'' then VNum (js_Number h v)
      else if operator = ''-'' then VNum (jneg (js_Number h v))
      else if operator = ''!'' then VBool (\<not> truthy v)
      else VUndefined)"

definition visitBinaryOperator :: "host \<Rightarrow> string \<Rightarrow> val \<Rightarrow> val \<Rightarrow> exn + val" where
  "visitBinaryOperator h operator left right =
     (if operator = ''^'' then binaryOperator h ''^'' left right
      else if operator = ''*'' then binaryOperator h ''*'' left right
      else if operator = ''/'' then binaryOperator h ''/'' left right
      else if operator = ''%'' then binaryOperator h ''%'' left right
      else if operator = ''+'' then add h left right
      else if operator = ''-'' then subtract h left right
      else if operator = ''<'' then lessThan_dg h left right
      else if operator = ''>'' then lessThan_dg h right left
      else if operator = ''<='' then lessThanOrEqual h left right
      else if operator = ''>='' then lessThanOrEqual h right left
      else if operator = ''=='' \<or> operator = ''==='' then Inr (VBool (strictEquals h left right))
      else if operator = ''!='' \<or> operator = ''!=='' then Inr (VBool (\<not> strictEquals h left right))
      else if operator = ''&&'' then Inr (if truthy left then right else left)
      else if operator = ''||'' then Inr (if truthy left then left else right)
      else Inl (SyntaxError ''DG.Formula.SyntaxErrorInvalidOperator'' operator))"

fun evaluateParseTree ::
    "host \<Rightarrow> ('e, 's) eval_context \<Rightarrow> 'e option \<Rightarrow> node \<Rightarrow> 's \<Rightarrow> (exn + val) \<times> 's"
  and evaluateArgs ::
    "host \<Rightarrow> ('e, 's) eval_context \<Rightarrow> 'e option \<Rightarrow> node list \<Rightarrow> 's \<Rightarrow> (exn + val list) \<times> 's"
where
  "evaluateParseTree h c ec (BooleanLiteral b) s = (Inr (VBool b), s)"
| "evaluateParseTree h c ec (NumericLiteral n) s = (Inr (VNum n), s)"
| "evaluateParseTree h c ec (StringLiteral v) s = (Inr (VStr v), s)"
| "evaluateParseTree h c ec (Variable x) s = evaluateVariable c x ec s"
| "evaluateParseTree h c ec (FunctionCall f args) s =
     (case evaluateArgs h c ec args s of
        (Inl e, s1) \<Rightarrow> (Inl e, s1)
      | (Inr vs, s1) \<Rightarrow> evaluateFunction c f vs s1)"
| "evaluateParseTree h c ec (UnaryExpression operator expression) s =
     (case evaluateParseTree h c ec expression s of
        (Inl e, s1) \<Rightarrow> (Inl e, s1)
      | (Inr v, s1) \<Rightarrow> (Inr (unaryOperator h operator v), s1))"
| "evaluateParseTree h c ec (BinaryExpression operator l r) s =
     (case evaluateParseTree h c ec l s of
        (Inl e, s1) \<Rightarrow> (Inl e, s1)
      | (Inr left, s1) \<Rightarrow>
          (case evaluateParseTree h c ec r s1 of
             (Inl e, s2) \<Rightarrow> (Inl e, s2)
           | (Inr right, s2) \<Rightarrow> (visitBinaryOperator h operator left right, s2)))"
| "evaluateParseTree h c ec (ConditionalExpression condition trueExpression falseExpression) s =
     (case evaluateParseTree h c ec condition s of
        (Inl e, s1) \<Rightarrow> (Inl e, s1)
      | (Inr v, s1) \<Rightarrow>
          if truthy v then evaluateParseTree h c ec trueExpression s1
          else evaluateParseTree h c ec falseExpression s1)"
| "evaluateArgs h c ec [] s = (Inr [], s)"
| "evaluateArgs h c ec (a # as) s =
     (case evaluateParseTree h c ec a s of
        (Inl e, s1) \<Rightarrow> (Inl e, s1)
      | (Inr v, s1) \<Rightarrow>
          (case evaluateArgs h c ec as s1 of
             (Inl e, s2) \<Rightarrow> (Inl e, s2)
           | (Inr vs, s2) \<Rightarrow> (Inr (v # vs), s2)))"

section \<open>The postfix evaluator\<close>

fun postfixVisit :: "node \<Rightarrow> node list \<Rightarrow> node list"
  and postfixVisitArgs :: "node list \<Rightarrow> node list \<Rightarrow> node list"
where
  "postfixVisit (BooleanLiteral b) postfix = postfix @ [BooleanLiteral b]"
| "postfixVisit (NumericLiteral n) postfix = postfix @ [NumericLiteral n]"
| "postfixVisit (StringLiteral s) postfix = postfix @ [StringLiteral s]"
| "postfixVisit (Variable x) postfix = postfix @ [Variable x]"
| "postfixVisit (FunctionCall f args) postfix =
     postfixVisitArgs args postfix @ [FunctionCall f args]"
| "postfixVisit (UnaryExpression operator expression) postfix =
     postfixVisit expression postfix @ [UnaryExpression operator expression]"
| "postfixVisit (BinaryExpression operator l r) postfix =
     postfixVisit r (postfixVisit l postfix) @ [BinaryExpression operator l r]"
| "postfixVisit (ConditionalExpression condition t f) postfix =
     postfixVisit f (postfixVisit t (postfixVisit condition postfix))
       @ [ConditionalExpression condition t f]"
| "postfixVisitArgs [] postfix = postfix"
| "postfixVisitArgs (a # as) postfix = postfixVisitArgs as (postfixVisit a postfix)"

definition convertToPostfix :: "node \<Rightarrow> node list" where
  "convertToPostfix iParseTree = postfixVisit iParseTree []"

text \<open>
  The host's own binary operators, which the postfix evaluator applies to the two values
  on top of its stack. An object operand is first reduced to a primitive: for \<open>+\<close> a
  date or an error gives its text; for the numeric and relational operators a date gives
  its numeric value and an error its text.
\<close>

fun toPrimitiveDefault :: "host \<Rightarrow> val \<Rightarrow> val" where
  "toPrimitiveDefault h (VDate t) = VStr (h_objToStr h (VDate t))"
| "toPrimitiveDefault h (VError m) = VStr (h_objToStr h (VError m))"
| "toPrimitiveDefault h v = v"

fun toPrimitiveNumber :: "host \<Rightarrow> val \<Rightarrow> val" where
  "toPrimitiveNumber h (VDate t) = VNum t"
| "toPrimitiveNumber h (VError m) = VStr (h_objToStr h (VError m))"
| "toPrimitiveNumber h v = v"

fun isString :: "val \<Rightarrow> bool" where
  "isString (VStr s) = True"
| "isString _ = False"

definition js_plus :: "host \<Rightarrow> val \<Rightarrow> val \<Rightarrow> val" where
  "js_plus h left right =
     (let l = toPrimitiveDefault h left; r = toPrimitiveDefault h right
      in if isString l \<or> isString r then VStr (js_String h l @ js_String h r)
         else VNum (jplus (js_Number h l) (js_Number h r)))"

definition js_less :: "host \<Rightarrow> val \<Rightarrow> val \<Rightarrow> bool" where
  "js_less h left right =
     (let l = toPrimitiveNumber h left; r = toPrimitiveNumber h right
      in if isString l \<and> isString r then str_less (js_String h l) (js_String h r)
         else jless (js_Number h l) (js_Number h r))"

definition js_lesseq :: "host \<Rightarrow> val \<Rightarrow> val \<Rightarrow> bool" where
  "js_lesseq h left right =
     (let l = toPrimitiveNumber h left; r = toPrimitiveNumber h right
      in if isString l \<and> isString r then str_lesseq (js_String h l) (js_String h r)
         else jlesseq (js_Number h l) (js_Number h r))"

definition nativeBinaryOperator :: "host \<Rightarrow> string \<Rightarrow> val \<Rightarrow> val \<Rightarrow> val" where
  "nativeBinaryOperator h operator left right =
     (if operator = ''^'' then VNum (h_arith h ''^'' (js_Number h left) (js_Number h right))
      else if operator = ''*'' then VNum (h_arith h ''*'' (js_Number h left) (js_Number h right))
      else if operator = ''/'' then VNum (h_arith h ''/'' (js_Number h left) (js_Number h right))
      else if operator = ''%'' then VNum (h_arith h ''%'' (js_Number h left) (js_Number h right))
      else if operator = ''+'' then js_plus h left right
      else if operator = ''-'' then VNum (jminus (js_Number h left) (js_Number h right))
      else if operator = ''<'' then VBool (js_less h left right)
      else if operator = ''>'' then VBool (js_less h right left)
      else if operator = ''<='' then VBool (js_lesseq h left right)
      else if operator = ''>='' then VBool (js_lesseq h right left)
      else if operator = ''=='' \<or> operator = ''==='' then VBool (strictEquals h left right)
      else if operator = ''!='' \<or> operator = ''!=='' then VBool (\<not> strictEquals h left right)
      else if operator = ''&&'' then (if truthy left then right else left)
      else if operator = ''||'' then (if truthy left then left else right)
      else VUndefined)"

text \<open>
  The evaluator's array \<open>stack\<close>, with its \<open>length\<close>, and the counter \<open>slen\<close>. The array
  is a function from indices to values, \<open>undefined\<close> where nothing was stored; an
  assignment at a negative index sets a property of that name and leaves the length alone.
\<close>

record pstack =
  stack :: "int \<Rightarrow> val"
  stackLength :: int
  slen :: int

definition stackStore :: "int \<Rightarrow> val \<Rightarrow> pstack \<Rightarrow> pstack" where
  "stackStore i v st =
     st\<lparr>stack := (stack st)(i := v),
        stackLength := (if 0 \<le> i then max (stackLength st) (i + 1) else stackLength st)\<rparr>"

text \<open>\<open>stack.slice(start, end)\<close>: a negative bound counts from the end of the array.\<close>

definition stackSlice :: "pstack \<Rightarrow> int \<Rightarrow> int \<Rightarrow> val list" where
  "stackSlice st start end =
     (let len = stackLength st;
          k = (if start < 0 then max (len + start) 0 else min start len);
          final = (if end < 0 then max (len + end) 0 else min end len)
      in map (stack st) [k..final - 1])"

text \<open>\<open>stack[slen++] = v\<close>.\<close>

definition stackPush :: "val \<Rightarrow> pstack \<Rightarrow> pstack" where
  "stackPush v st = (stackStore (slen st) v st)\<lparr>slen := slen st + 1\<rparr>"

text \<open>
  One node of the postfix sequence. \<open>evaluateVariable\<close> is called with the name alone:
  \<open>DG.Formula.evaluatePostfix\<close> declares the two parameters \<open>iPostfix\<close> and \<open>iContext\<close>, so
  the evaluation-time context its caller passes third never reaches a variable.
\<close>

fun postfixNode ::
  "host \<Rightarrow> ('e, 's) eval_context \<Rightarrow> node \<Rightarrow> pstack \<Rightarrow> 's \<Rightarrow> (exn + pstack) \<times> 's" where
  "postfixNode h c (BooleanLiteral b) st s = (Inr (stackPush (VBool b) st), s)"
| "postfixNode h c (NumericLiteral n) st s = (Inr (stackPush (VNum n) st), s)"
| "postfixNode h c (StringLiteral v) st s = (Inr (stackPush (VStr v) st), s)"
| "postfixNode h c (Variable x) st s =
     (case evaluateVariable c x None s of
        (Inl e, s1) \<Rightarrow> (Inl e, s1)
      | (Inr v, s1) \<Rightarrow> (Inr (stackPush v st), s1))"
| "postfixNode h c (FunctionCall f args) st s =
     (let nArgs = int (length args);
          stackArgs = (if nArgs \<noteq> 0 then stackSlice st (slen st - nArgs) (slen st) else [])
      in case evaluateFunction c f stackArgs s of
           (Inl e, s1) \<Rightarrow> (Inl e, s1)
         | (Inr result, s1) \<Rightarrow>
             (Inr (stackStore (slen st - (nArgs - 1) - 1) result
                     (st\<lparr>slen := slen st - (nArgs - 1)\<rparr>)), s1))"
| "postfixNode h c (UnaryExpression operator expression) st s =
     (if slen st = 0 then (Inr st, s)
      else (Inr (stackStore (slen st - 1)
                   (unaryOperator h operator (stack st (slen st - 1))) st), s))"
| "postfixNode h c (BinaryExpression operator l r) st s =
     (if slen st < 2 then (Inr st, s)
      else (Inr (stackStore (slen st - 1 - 1)
                   (nativeBinaryOperator h operator (stack st (slen st - 2)) (stack st (slen st - 1)))
                   (st\<lparr>slen := slen st - 1\<rparr>)), s))"
| "postfixNode h c (ConditionalExpression condition t f) st s =
     (if slen st < 3 then (Inr st, s)
      else (Inr (stackStore (slen st - 2 - 1)
                   (if truthy (stack st (slen st - 3)) then stack st (slen st - 2)
                    else stack st (slen st - 1))
                   (st\<lparr>slen := slen st - 2\<rparr>)), s))"

text \<open>\<open>iPostfix.forEach\<close>: the nodes in order; an exception ends the run.\<close>

fun postfixNodes ::
  "host \<Rightarrow> ('e, 's) eval_context \<Rightarrow> node list \<Rightarrow> pstack \<Rightarrow> 's \<Rightarrow> (exn + pstack) \<times> 's" where
  "postfixNodes h c [] st s = (Inr st, s)"
| "postfixNodes h c (n # ns) st s =
     (case postfixNode h c n st s of
        (Inl e, s1) \<Rightarrow> (Inl e, s1)
      | (Inr st1, s1) \<Rightarrow> postfixNodes h c ns st1 s1)"

definition evaluatePostfix ::
  "host \<Rightarrow> ('e, 's) eval_context \<Rightarrow> node list \<Rightarrow> 's \<Rightarrow> (exn + val) \<times> 's" where
  "evaluatePostfix h c iPostfix s =
     (case postfixNodes h c iPostfix
             \<lparr>stack = (\<lambda>i. VUndefined), stackLength = int (length iPostfix), slen = 0\<rparr> s of
        (Inl e, s1) \<Rightarrow> (Inl e, s1)
      | (Inr st, s1) \<Rightarrow> (Inr (if slen st > 0 then stack st (slen st - 1) else VUndefined), s1))"

text \<open>The nodes of a tree in post-order, as a function of the tree alone.\<close>

fun postorder :: "node \<Rightarrow> node list"
  and postorderArgs :: "node list \<Rightarrow> node list"
where
  "postorder (BooleanLiteral b) = [BooleanLiteral b]"
| "postorder (NumericLiteral n) = [NumericLiteral n]"
| "postorder (StringLiteral s) = [StringLiteral s]"
| "postorder (Variable x) = [Variable x]"
| "postorder (FunctionCall f args) = postorderArgs args @ [FunctionCall f args]"
| "postorder (UnaryExpression operator expression) =
     postorder expression @ [UnaryExpression operator expression]"
| "postorder (BinaryExpression operator l r) =
     postorder l @ postorder r @ [BinaryExpression operator l r]"
| "postorder (ConditionalExpression condition t f) =
     postorder condition @ postorder t @ postorder f @ [ConditionalExpression condition t f]"
| "postorderArgs [] = []"
| "postorderArgs (a # as) = postorder a @ postorderArgs as"

section \<open>Trees on which the two evaluators can be compared\<close>

text \<open>
  The operators both evaluators hand to the host, and the operators the tree walker hands
  to the type-coercion runtime.
\<close>

definition hostOperator :: "string \<Rightarrow> bool" where
  "hostOperator operator =
     (operator = ''=='' \<or> operator = ''==='' \<or> operator = ''!='' \<or> operator = ''!=='' \<or>
      operator = ''&&'' \<or> operator = ''||'')"

definition coercingOperator :: "string \<Rightarrow> bool" where
  "coercingOperator operator =
     (operator = ''^'' \<or> operator = ''*'' \<or> operator = ''/'' \<or> operator = ''%'' \<or>
      operator = ''+'' \<or> operator = ''-'' \<or> operator = ''<'' \<or> operator = ''>'' \<or>
      operator = ''<='' \<or> operator = ''>='')"

text \<open>A finite number or a boolean: a value the runtime and the host coerce alike.\<close>

fun plainNumeric :: "val \<Rightarrow> bool" where
  "plainNumeric (VNum (Fin x)) = True"
| "plainNumeric (VBool b) = True"
| "plainNumeric _ = False"

definition agreeingOperands :: "string \<Rightarrow> val \<Rightarrow> val \<Rightarrow> bool" where
  "agreeingOperands operator left right =
     (hostOperator operator \<or>
      (coercingOperator operator \<and> plainNumeric left \<and> plainNumeric right))"

text \<open>An evaluation from the state \<open>s\<close> is quiet: it returns and leaves the state as it was.\<close>

definition quiet :: "(exn + val) \<times> 's \<Rightarrow> 's \<Rightarrow> bool" where
  "quiet r s = (case r of (Inl e, s1) \<Rightarrow> False | (Inr v, s1) \<Rightarrow> s1 = s)"

text \<open>
  A tree is comparable from a state of the context when, along its evaluation by the tree
  walker, every variable evaluates to the same outcome with the evaluation-time context as
  without one; every binary operator is one the host evaluates in both evaluators, or is
  one of \<open>^ * / % + - < > <= >=\<close> applied to two operand values that are finite numbers or
  booleans; and in every conditional expression the postfix evaluator runs the branch that
  is not taken quietly, from the state in which it meets that branch (the true branch
  after the condition, the false branch after the true branch). Nothing else is asked of
  a branch that is not taken, nor of what follows an exception.
\<close>

fun comparable ::
    "host \<Rightarrow> ('e, 's) eval_context \<Rightarrow> 'e option \<Rightarrow> node \<Rightarrow> 's \<Rightarrow> bool"
  and comparableArgs ::
    "host \<Rightarrow> ('e, 's) eval_context \<Rightarrow> 'e option \<Rightarrow> node list \<Rightarrow> 's \<Rightarrow> bool"
where
  "comparable h c ec (BooleanLiteral b) s = True"
| "comparable h c ec (NumericLiteral n) s = True"
| "comparable h c ec (StringLiteral v) s = True"
| "comparable h c ec (Variable x) s = (evaluateVariable c x ec s = evaluateVariable c x None s)"
| "comparable h c ec (FunctionCall f args) s = comparableArgs h c ec args s"
| "comparable h c ec (UnaryExpression operator expression) s = comparable h c ec expression s"
| "comparable h c ec (BinaryExpression operator l r) s =
     (comparable h c ec l s \<and>
      (case evaluateParseTree h c ec l s of
         (Inl e, s1) \<Rightarrow> True
       | (Inr left, s1) \<Rightarrow>
           comparable h c ec r s1 \<and>
           (case evaluateParseTree h c ec r s1 of
              (Inl e, s2) \<Rightarrow> True
            | (Inr right, s2) \<Rightarrow> agreeingOperands operator left right)))"
| "comparable h c ec (ConditionalExpression condition t f) s =
     (comparable h c ec condition s \<and>
      (case evaluateParseTree h c ec condition s of
         (Inl e, s1) \<Rightarrow> True
       | (Inr v, s1) \<Rightarrow>
           if truthy v
           then comparable h c ec t s1 \<and>
                (case evaluateParseTree h c ec t s1 of
                   (Inl e, s2) \<Rightarrow> True
                 | (Inr tv, s2) \<Rightarrow> quiet (evaluatePostfix h c (convertToPostfix f) s2) s2)
           else quiet (evaluatePostfix h c (convertToPostfix t) s1) s1 \<and>
                comparable h c ec f s1))"
| "comparableArgs h c ec [] s = True"
| "comparableArgs h c ec (a # as) s =
     (comparable h c ec a s \<and>
      (case evaluateParseTree h c ec a s of
         (Inl e, s1) \<Rightarrow> True
       | (Inr v, s1) \<Rightarrow> comparableArgs h c ec as s1))"

text \<open>
  What a run of the postfix evaluator over the flattening of a tree amounts to, as a
  function of the tree: the operands of every node are evaluated from left to right, all
  three parts of a conditional expression among them, a variable is evaluated without an
  evaluation-time context and a binary operator is the host's. The stack discipline below
  relates the run to it.
\<close>

fun postfixTree ::
    "host \<Rightarrow> ('e, 's) eval_context \<Rightarrow> node \<Rightarrow> 's \<Rightarrow> (exn + val) \<times> 's"
  and postfixTreeArgs ::
    "host \<Rightarrow> ('e, 's) eval_context \<Rightarrow> node list \<Rightarrow> 's \<Rightarrow> (exn + val list) \<times> 's"
where
  "postfixTree h c (BooleanLiteral b) s = (Inr (VBool b), s)"
| "postfixTree h c (NumericLiteral n) s = (Inr (VNum n), s)"
| "postfixTree h c (StringLiteral v) s = (Inr (VStr v), s)"
| "postfixTree h c (Variable x) s = evaluateVariable c x None s"
| "postfixTree h c (FunctionCall f args) s =
     (case postfixTreeArgs h c args s of
        (Inl e, s1) \<Rightarrow> (Inl e, s1)
      | (Inr vs, s1) \<Rightarrow> evaluateFunction c f vs s1)"
| "postfixTree h c (UnaryExpression operator expression) s =
     (case postfixTree h c expression s of
        (Inl e, s1) \<Rightarrow> (Inl e, s1)
      | (Inr v, s1) \<Rightarrow> (Inr (unaryOperator h operator v), s1))"
| "postfixTree h c (BinaryExpression operator l r) s =
     (case postfixTree h c l s of
        (Inl e, s1) \<Rightarrow> (Inl e, s1)
      | (Inr left, s1) \<Rightarrow>
          (case postfixTree h c r s1 of
             (Inl e, s2) \<Rightarrow> (Inl e, s2)
           | (Inr right, s2) \<Rightarrow> (Inr (nativeBinaryOperator h operator left right), s2)))"
| "postfixTree h c (ConditionalExpression condition t f) s =
     (case postfixTree h c condition s of
        (Inl e, s1) \<Rightarrow> (Inl e, s1)
      | (Inr v, s1) \<Rightarrow>
          (case postfixTree h c t s1 of
             (Inl e, s2) \<Rightarrow> (Inl e, s2)
           | (Inr tv, s2) \<Rightarrow>
               (case postfixTree h c f s2 of
                  (Inl e, s3) \<Rightarrow> (Inl e, s3)
                | (Inr fv, s3) \<Rightarrow> (Inr (if truthy v then tv else fv), s3))))"
| "postfixTreeArgs h c [] s = (Inr [], s)"
| "postfixTreeArgs h c (a # as) s =
     (case postfixTree h c a s of
        (Inl e, s1) \<Rightarrow> (Inl e, s1)
      | (Inr v, s1) \<Rightarrow>
          (case postfixTreeArgs h c as s1 of
             (Inl e, s2) \<Rightarrow> (Inl e, s2)
           | (Inr vs, s2) \<Rightarrow> (Inr (v # vs), s2)))"

text \<open>
  The stack discipline: from a state with a non-negative counter within the array, a run
  has pushed the values \<open>vs\<close> when the counter grew by their number, they stand at the
  old counter and above it, everything below is untouched and the counter is still within
  the array.
\<close>

definition pushed :: "pstack \<Rightarrow> val list \<Rightarrow> pstack \<Rightarrow> bool" where
  "pushed st vs st' =
     (0 \<le> slen st \<and>
      slen st' = slen st + int (length vs) \<and>
      (\<forall>k < length vs. stack st' (slen st + int k) = vs ! k) \<and>
      (\<forall>i < slen st. stack st' i = stack st i) \<and>
      slen st' \<le> stackLength st')"

text \<open>
  A run of the postfix evaluator over the nodes \<open>ns\<close> tracks an outcome of the tree walker:
  it raises the same exception in the same state of the context, or it pushes the values
  the tree walker returned and leaves the context in the same state.
\<close>

definition tracks ::
  "host \<Rightarrow> ('e, 's) eval_context \<Rightarrow> node list \<Rightarrow> pstack \<Rightarrow> 's \<Rightarrow> (exn + val list) \<times> 's \<Rightarrow> bool"
  where
  "tracks h c ns st s r =
     (case r of
        (Inl e, s1) \<Rightarrow> postfixNodes h c ns st s = (Inl e, s1)
      | (Inr vs, s1) \<Rightarrow> (\<exists>st1. postfixNodes h c ns st s = (Inr st1, s1) \<and> pushed st vs st1))"

definition single :: "(exn + val) \<times> 's \<Rightarrow> (exn + val list) \<times> 's" where
  "single r = (case r of (Inl e, s) \<Rightarrow> (Inl e, s) | (Inr v, s) \<Rightarrow> (Inr [v], s))"

definition both ::
  "(exn + val list) \<times> 's \<Rightarrow> ('s \<Rightarrow> (exn + val list) \<times> 's) \<Rightarrow> (exn + val list) \<times> 's" where
  "both r1 r2 =
     (case r1 of
        (Inl e, s1) \<Rightarrow> (Inl e, s1)
      | (Inr vs, s1) \<Rightarrow>
          (case r2 s1 of (Inl e, s2) \<Rightarrow> (Inl e, s2) | (Inr ws, s2) \<Rightarrow> (Inr (vs @ ws), s2)))"

section \<open>The code generator\<close>

text \<open>
  The capabilities of the context that compilation uses are not part of the sources at
  hand; they are parameters of the model. The context is stateful (it keeps the nesting of
  function contexts), so each capability takes the context's state, of some type \<open>'c\<close>;
  \<open>compileVariable\<close> and \<open>compileFunction\<close>, which resolve names, may throw.
\<close>

record 'c compile_context =
  compileVariable :: "string \<Rightarrow> nat list \<Rightarrow> 'c \<Rightarrow> (exn + string) \<times> 'c"
  compileFunction :: "string \<Rightarrow> string list \<Rightarrow> nat list \<Rightarrow> 'c \<Rightarrow> (exn + string) \<times> 'c"
  isAggregate :: "string \<Rightarrow> 'c \<Rightarrow> bool"
  beginFunctionContext :: "string \<Rightarrow> bool \<Rightarrow> 'c \<Rightarrow> 'c"
  endFunctionContext :: "string \<Rightarrow> 'c \<Rightarrow> 'c"
  getAggregateFunctionIndices :: "'c \<Rightarrow> nat list"
  willCompile :: "'c \<Rightarrow> 'c"
  didCompile :: "'c \<Rightarrow> 'c"
  completeCompile :: "'c \<Rightarrow> 'c"

definition doubleQuote :: string where
  "doubleQuote = [CHR 0x22]"

text \<open>\<open>value.replace(/"/g, "\\\"")\<close>: a backslash before every double quote.\<close>

definition escapeQuotes :: "string \<Rightarrow> string" where
  "escapeQuotes s = concat (map (\<lambda>ch. if ch = CHR 0x22 then [CHR 0x5C, CHR 0x22] else [ch]) s)"

fun isBinaryExpression :: "node \<Rightarrow> bool" where
  "isBinaryExpression (BinaryExpression operator l r) = True"
| "isBinaryExpression _ = False"

text \<open>\<open>visitTerm\<close>, applied to the outcome of visiting the node.\<close>

definition visitTerm :: "node \<Rightarrow> (exn + string) \<times> 'c \<Rightarrow> (exn + string) \<times> 'c" where
  "visitTerm iNode visited =
     (case visited of
        (Inl e, s) \<Rightarrow> (Inl e, s)
      | (Inr expr, s) \<Rightarrow>
          (Inr (if isBinaryExpression iNode then ''('' @ expr @ '')'' else expr), s))"

definition binaryExpressionText :: "string \<Rightarrow> string \<Rightarrow> string \<Rightarrow> string" where
  "binaryExpressionText operator leftTerm rightTerm =
     (if operator = ''+'' then ''DG.Formula.add('' @ leftTerm @ '','' @ rightTerm @ '')''
      else if operator = ''-'' then ''DG.Formula.subtract('' @ leftTerm @ '','' @ rightTerm @ '')''
      else if operator = ''<'' then ''DG.Formula.lessThan('' @ leftTerm @ '','' @ rightTerm @ '')''
      else if operator = ''>'' then ''DG.Formula.lessThan('' @ rightTerm @ '','' @ leftTerm @ '')''
      else if operator = ''<=''
      then ''DG.Formula.lessThanOrEqual('' @ leftTerm @ '','' @ rightTerm @ '')''
      else if operator = ''>=''
      then ''DG.Formula.lessThanOrEqual('' @ rightTerm @ '','' @ leftTerm @ '')''
      else if operator = ''*'' \<or> operator = ''/'' \<or> operator = ''%'' \<or> operator = ''^''
      then ''DG.Formula.binaryOperator('' @ doubleQuote @ operator @ doubleQuote @ '',''
             @ leftTerm @ '','' @ rightTerm @ '')''
      else leftTerm @ operator @ rightTerm)"

text \<open>
  The visit functions of \<open>compileToJavaScript\<close>. A literal's value becomes text where it is
  concatenated with the text around it.
\<close>

fun compileVisit :: "host \<Rightarrow> 'c compile_context \<Rightarrow> node \<Rightarrow> 'c \<Rightarrow> (exn + string) \<times> 'c"
  and compileVisitArgs ::
    "host \<Rightarrow> 'c compile_context \<Rightarrow> node list \<Rightarrow> 'c \<Rightarrow> (exn + string list) \<times> 'c"
where
  "compileVisit h c (BooleanLiteral b) s = (Inr (if b then ''true'' else ''false''), s)"
| "compileVisit h c (NumericLiteral n) s = (Inr (h_numToStr h n), s)"
| "compileVisit h c (StringLiteral v) s = (Inr (doubleQuote @ escapeQuotes v @ doubleQuote), s)"
| "compileVisit h c (Variable x) s = compileVariable c x (getAggregateFunctionIndices c s) s"
| "compileVisit h c (FunctionCall fnName args) s =
     (let isAggFn = isAggregate c fnName s;
          s1 = beginFunctionContext c fnName isAggFn s
      in case compileVisitArgs h c args s1 of
           (Inl e, s2) \<Rightarrow> (Inl e, s2)
         | (Inr compiledArgs, s2) \<Rightarrow>
             (let aggFnIndices = getAggregateFunctionIndices c s2;
                  s3 = endFunctionContext c fnName s2
              in compileFunction c fnName compiledArgs aggFnIndices s3))"
| "compileVisit h c (UnaryExpression operator expression) s =
     (case visitTerm expression (compileVisit h c expression s) of
        (Inl e, s1) \<Rightarrow> (Inl e, s1)
      | (Inr term, s1) \<Rightarrow> (Inr (operator @ term), s1))"
| "compileVisit h c (BinaryExpression operator l r) s =
     (case visitTerm l (compileVisit h c l s) of
        (Inl e, s1) \<Rightarrow> (Inl e, s1)
      | (Inr leftTerm, s1) \<Rightarrow>
          (case visitTerm r (compileVisit h c r s1) of
             (Inl e, s2) \<Rightarrow> (Inl e, s2)
           | (Inr rightTerm, s2) \<Rightarrow>
               (Inr (binaryExpressionText operator leftTerm rightTerm), s2)))"
| "compileVisit h c (ConditionalExpression condition trueExpression falseExpression) s =
     (case visitTerm condition (compileVisit h c condition s) of
        (Inl e, s1) \<Rightarrow> (Inl e, s1)
      | (Inr conditionTerm, s1) \<Rightarrow>
          (case visitTerm trueExpression (compileVisit h c trueExpression s1) of
             (Inl e, s2) \<Rightarrow> (Inl e, s2)
           | (Inr trueTerm, s2) \<Rightarrow>
               (case visitTerm falseExpression (compileVisit h c falseExpression s2) of
                  (Inl e, s3) \<Rightarrow> (Inl e, s3)
                | (Inr falseTerm, s3) \<Rightarrow>
                    (Inr (''('' @ conditionTerm @ ''?'' @ trueTerm @ '':'' @ falseTerm @ '')''),
                     s3))))"
| "compileVisitArgs h c [] s = (Inr [], s)"
| "compileVisitArgs h c (a # as) s =
     (case compileVisit h c a s of
        (Inl e, s1) \<Rightarrow> (Inl e, s1)
      | (Inr arg, s1) \<Rightarrow>
          (case compileVisitArgs h c as s1 of
             (Inl e, s2) \<Rightarrow> (Inl e, s2)
           | (Inr rest, s2) \<Rightarrow> (Inr (arg # rest), s2)))"

definition compileToJavaScript ::
  "host \<Rightarrow> 'c compile_context \<Rightarrow> node \<Rightarrow> 'c \<Rightarrow> (exn + string) \<times> 'c" where
  "compileToJavaScript h iContext iParseTree s = compileVisit h iContext iParseTree s"

section \<open>The compiled property of a formula\<close>

text \<open>
  The lifecycle hooks of the context. To observe which hooks a compilation invokes, each
  invocation is recorded in a log that travels with the context's state.
\<close>

datatype hook = WillCompile | DidCompile | CompleteCompile

fun hookEffect :: "'c compile_context \<Rightarrow> hook \<Rightarrow> 'c \<Rightarrow> 'c" where
  "hookEffect c WillCompile = willCompile c"
| "hookEffect c DidCompile = didCompile c"
| "hookEffect c CompleteCompile = completeCompile c"

definition invoke :: "'c compile_context \<Rightarrow> hook \<Rightarrow> 'c \<times> hook list \<Rightarrow> 'c \<times> hook list" where
  "invoke c k w = (hookEffect c k (fst w), snd w @ [k])"

text \<open>
  The body of the property \<open>compiled\<close>. Its input \<open>parsed\<close> is the outcome of reading the
  property \<open>parsed\<close>: an exception of the parser, no tree (an empty source), or a tree. The
  result is the generated text, which \<open>createContextFunction\<close> wraps into a callable, or
  \<open>None\<close> for \<open>null\<close>. The context is the formula's own; where the formula has none, the
  source first creates a default one.
\<close>

definition compiled ::
  "host \<Rightarrow> 'c compile_context \<Rightarrow> exn + node option \<Rightarrow> 'c \<times> hook list
     \<Rightarrow> (exn + string option) \<times> ('c \<times> hook list)" where
  "compiled h context parsed w =
     (case parsed of
        Inl e \<Rightarrow> (Inl e, w)
      | Inr None \<Rightarrow> (Inr None, w)
      | Inr (Some tree) \<Rightarrow>
          (let w1 = invoke context WillCompile w
           in case compileToJavaScript h context tree (fst w1) of
                (Inl e, s2) \<Rightarrow> (Inl e, (s2, snd w1))
              | (Inr output, s2) \<Rightarrow>
                  (let w2 = invoke context DidCompile (s2, snd w1);
                       w3 = invoke context CompleteCompile w2
                   in (Inr (Some output), w3))))"

section \<open>A sample host\<close>

text \<open>
  The closed examples below run on one concrete host. It reads a string of decimal digits
  as the number it denotes and the empty string as \<open>0\<close>, as the host language does, and
  any string with another character as \<open>NaN\<close>; it prints a natural number in decimal; it
  recognises no string as a date, so its dates are date objects; of the numeric operators
  it multiplies. Its other answers are fixed arbitrarily: no example reads them.
\<close>

fun digitsValue :: "string \<Rightarrow> nat \<Rightarrow> nat option" where
  "digitsValue [] acc = Some acc"
| "digitsValue (c # cs) acc =
     (if 48 \<le> (of_char c :: nat) \<and> (of_char c :: nat) \<le> 57
      then digitsValue cs (10 * acc + (of_char c - 48))
      else None)"

definition sample_strToNum :: "string \<Rightarrow> jsnum" where
  "sample_strToNum s =
     (case digitsValue s 0 of Some n \<Rightarrow> Fin (real n) | None \<Rightarrow> NaN)"

fun sample_arith :: "string \<Rightarrow> jsnum \<Rightarrow> jsnum \<Rightarrow> jsnum" where
  "sample_arith op (Fin x) (Fin y) = (if op = ''*'' then Fin (x * y) else NaN)"
| "sample_arith op _ _ = NaN"

fun digitsOf :: "nat \<Rightarrow> string" where
  "digitsOf n =
     (if n < 10 then [''0123456789'' ! n]
      else digitsOf (n div 10) @ [''0123456789'' ! (n mod 10)])"

declare digitsOf.simps [simp del]

definition sample_numToStr :: "jsnum \<Rightarrow> string" where
  "sample_numToStr n =
     (case n of
        NaN \<Rightarrow> ''NaN''
      | Fin x \<Rightarrow> (if 0 \<le> x \<and> x = of_int \<lfloor>x\<rfloor> then digitsOf (nat \<lfloor>x\<rfloor>) else ''NaN''))"

definition sampleHost :: host where
  "sampleHost = \<lparr>
     h_strToNum = sample_strToNum,
     h_numToStr = sample_numToStr,
     h_objToStr = (\<lambda>v. ''[object]''),
     h_isDateString = (\<lambda>s. False),
     h_parseDate = (\<lambda>s. NaN),
     h_arith = sample_arith,
     h_sameObject = (\<lambda>a b. a = b) \<rparr>"

section \<open>Operand pairs with an empty side\<close>

text \<open>
  Both operands are empty, or one is empty and the other is numeric-interpretable under
  the given test.
\<close>

definition emptyPair :: "(val \<Rightarrow> bool) \<Rightarrow> val \<Rightarrow> val \<Rightarrow> bool" where
  "emptyPair numeric a b =
     ((sc_empty a \<and> sc_empty b) \<or> (sc_empty a \<and> numeric b) \<or> (numeric a \<and> sc_empty b))"

text \<open>
  A sample evaluation context, whose state is a counter: a variable evaluates to the
  evaluation-time context (to \<open>undefined\<close> when there is none), the function \<open>count\<close>
  returns the number of its arguments, the function \<open>next\<close> advances the counter and
  returns it, and any other function throws.
\<close>

definition sampleContext :: "(val, nat) eval_context" where
  "sampleContext = \<lparr>
     evaluateVariable = (\<lambda>x ec s. (case ec of None \<Rightarrow> Inr VUndefined | Some v \<Rightarrow> Inr v, s)),
     evaluateFunction = (\<lambda>f vs s.
        if f = ''count'' then (Inr (VNum (Fin (real (length vs)))), s)
        else if f = ''next'' then (Inr (VNum (Fin (real (Suc s)))), Suc s)
        else (Inl (ContextError f), s)) \<rparr>"

text \<open>
  A sample compilation context: it knows the variable \<open>known\<close> and refuses every other
  name, as a context does that cannot resolve a reference; its state counts the open
  function contexts.
\<close>

definition sampleCompileContext :: "nat compile_context" where
  "sampleCompileContext = \<lparr>
     compileVariable = (\<lambda>x indices s.
        if x = ''known'' then (Inr (''e.'' @ x), s) else (Inl (ContextError x), s)),
     compileFunction = (\<lambda>f args indices s. (Inr (f @ ''('' @ concat args @ '')''), s)),
     isAggregate = (\<lambda>f s. False),
     beginFunctionContext = (\<lambda>f agg s. Suc s),
     endFunctionContext = (\<lambda>f s. s - 1),
     getAggregateFunctionIndices = (\<lambda>s. []),
     willCompile = (\<lambda>s. 0),
     didCompile = (\<lambda>s. s),
     completeCompile = (\<lambda>s. s) \<rparr>"

section \<open>Properties of the type-coercion runtime\<close>

lemma sampleHost_fields [simp]:
  "h_strToNum sampleHost = sample_strToNum"
  "h_isDateString sampleHost s = False"
  "h_parseDate sampleHost s = NaN"
  "h_arith sampleHost = sample_arith"
  "h_numToStr sampleHost = sample_numToStr"
  by (simp_all add: sampleHost_def)

lemma sample_starterNum:
  "starterNum sampleHost (VDate (Fin 1000)) = Fin 1000"
  "starterNum sampleHost (VNum (Fin 5)) = Fin 5"
  by (simp_all add: starterNum_def js_isNaN_def)

lemma sample_operatorNum:
  "operatorNum sampleHost (VNum (Fin 1)) = Fin 1"
  "operatorNum sampleHost (VNum (Fin 2)) = Fin 2"
  "operatorNum sampleHost (VStr []) = NaN"
  by (simp_all add: operatorNum_def)

lemma sample_letters:
  "starterNum sampleHost (VStr ''a'') = NaN" "starterNum sampleHost (VStr ''b'') = NaN"
  by (simp_all add: starterNum_def whiteSpaceRegExp_test_def isWhiteSpaceChar_def js_isNaN_def
      sample_strToNum_def)

lemma sample_strings:
  "starterNum sampleHost (VStr ''2'') = Fin 2"
  "starterNum sampleHost (VStr ''x'') = NaN"
  "starterNum sampleHost (VNum (Fin 1)) = Fin 1"
  "starterNum sampleHost (VStr []) = NaN"
  by (simp_all add: starterNum_def whiteSpaceRegExp_test_def isWhiteSpaceChar_def js_isNaN_def
      sample_strToNum_def)

lemma starter_errors:
  "arithmeticStarter h (VError m1) b = Propagate (VError m1)"
  by (simp add: arithmeticStarter_def)

lemma starterNum_numeric:
  "starterNum h x \<noteq> NaN \<Longrightarrow> \<not> isError x \<and> \<not> isNaNValue x \<and> \<not> sc_empty x"
  by (cases x) (auto simp: starterNum_def isNaNValue_def js_isNaN_def split: if_splits)

lemma starterNum_empty: "sc_empty x \<Longrightarrow> starterNum h x = NaN"
  by (simp add: starterNum_def)

lemma empty_plain: "sc_empty x \<Longrightarrow> \<not> isError x \<and> \<not> isNaNValue x"
  by (cases x) (auto simp: isNaNValue_def)

lemma starter_classified:
  "\<not> isError a \<Longrightarrow> \<not> isError b \<Longrightarrow> \<not> isNaNValue a \<Longrightarrow> \<not> isNaNValue b \<Longrightarrow>
   arithmeticStarter h a b = Classified \<lparr>
            isNumeric1 = (starterNum h a \<noteq> NaN),
            isNumeric2 = (starterNum h b \<noteq> NaN),
            isDate1 = dateInterpretable h a,
            isDate2 = dateInterpretable h b,
            empty1 = sc_empty a,
            empty2 = sc_empty b,
            num1 = starterNum h a,
            num2 = starterNum h b \<rparr>"
  by (simp add: arithmeticStarter_def)

lemma emptyPair_starter:
  assumes "emptyPair (\<lambda>x. starterNum h x \<noteq> NaN) a b"
  shows "\<not> isError a" "\<not> isError b" "\<not> isNaNValue a" "\<not> isNaNValue b"
    "\<not> (starterNum h a \<noteq> NaN \<and> starterNum h b \<noteq> NaN)"
proof -
  have ab: "(sc_empty a \<or> starterNum h a \<noteq> NaN) \<and> (sc_empty b \<or> starterNum h b \<noteq> NaN)"
    using assms unfolding emptyPair_def by blast
  show "\<not> isError a" using ab starterNum_numeric [of h a] empty_plain [of a] by blast
  show "\<not> isError b" using ab starterNum_numeric [of h b] empty_plain [of b] by blast
  show "\<not> isNaNValue a" using ab starterNum_numeric [of h a] empty_plain [of a] by blast
  show "\<not> isNaNValue b" using ab starterNum_numeric [of h b] empty_plain [of b] by blast
  have "sc_empty a \<or> sc_empty b"
    using assms unfolding emptyPair_def by blast
  then show "\<not> (starterNum h a \<noteq> NaN \<and> starterNum h b \<noteq> NaN)"
    using starterNum_empty [of a h] starterNum_empty [of b h] by blast
qed

lemma operatorNum_numeric:
  "operatorNum h x \<noteq> NaN \<Longrightarrow> \<not> isError x \<and> \<not> isNaNValue x \<and> \<not> sc_empty x"
  by (cases x) (auto simp: operatorNum_def isNaNValue_def split: if_splits)

lemma operatorNum_empty: "sc_empty x \<Longrightarrow> operatorNum h x = NaN"
  by (simp add: operatorNum_def)

lemma binaryOperator_unfold:
  "binaryOperator h op a b =
     (if dateInterpretable h a \<or> dateInterpretable h b then Inl (DGTypeError op)
      else if operatorNum h a \<noteq> NaN \<and> operatorNum h b \<noteq> NaN
      then (if op = ''*'' \<or> op = ''/'' \<or> op = ''%'' \<or> op = ''^''
            then Inr (VNum (h_arith h op (operatorNum h a) (operatorNum h b)))
            else Inl (HostTypeError ''loc is not a function''))
      else if isError a then Inr a
      else if isError b then Inr b
      else if isNaNValue a \<or> isNaNValue b then Inr (VNum NaN)
      else if sc_empty a \<and> sc_empty b then Inr (VStr [])
      else if (sc_empty a \<and> operatorNum h b \<noteq> NaN) \<or> (operatorNum h a \<noteq> NaN \<and> sc_empty b)
      then Inr (VStr [])
      else Inl (DGTypeError op))"
  unfolding binaryOperator_def Let_def by (rule refl)

lemma finisher_empty:
  assumes "(e1 \<and> e2) \<or> (e1 \<and> n2) \<or> (n1 \<and> e2)"
  shows "arithmeticFinisher \<lparr>isNumeric1 = n1, isNumeric2 = n2, isDate1 = d1, isDate2 = d2,
            empty1 = e1, empty2 = e2, num1 = x1, num2 = x2\<rparr> op = Inr (VStr [])"
    and "stringFinisher h (OfRecord \<lparr>isNumeric1 = n1, isNumeric2 = n2, isDate1 = d1, isDate2 = d2,
            empty1 = e1, empty2 = e2, num1 = x1, num2 = x2\<rparr>) a b op' = Inr (VStr [])"
  using assms by (auto simp: arithmeticFinisher_def stringFinisher_def)

lemma starter_nan:
  "a = VNum NaN \<or> b = VNum NaN \<Longrightarrow> \<not> isError a \<Longrightarrow> \<not> isError b \<Longrightarrow>
   arithmeticStarter h a b = Propagate (VNum NaN)"
  by (auto simp: arithmeticStarter_def isNaNValue_def)

subsection \<open>Addition\<close>

text \<open>
  C1: the examples of \<open>add\<close>. Of the four, three hold: \<open>add(1, "2")\<close> is the number 3,
  \<open>add("", "x")\<close> is \<open>"x"\<close> and \<open>add("", "")\<close> is the empty string. The fourth does not:
  for two non-empty operands that are not numeric-interpretable the code does not return
  the concatenation; \<open>add("a", "b")\<close> is \<open>undefined\<close>, because the final call of
  \<open>stringFinisher\<close> leaves out its first argument.
\<close>

theorem add_examples:
  "add sampleHost (VNum (Fin 1)) (VStr ''2'') = Inr (VNum (Fin 3)) \<and>
   add sampleHost (VStr ''a'') (VStr ''b'') = Inr VUndefined \<and>
   add sampleHost (VStr []) (VStr ''x'') = Inr (VStr ''x'') \<and>
   add sampleHost (VStr []) (VStr []) = Inr (VStr [])"
  by (simp add: add_def arithmeticStarter_def isNaNValue_def sample_letters sample_strings
      stringFinisher_def dateInterpretable_def whiteSpaceRegExp_test_def isWhiteSpaceChar_def)

subsection \<open>The operator dispatcher\<close>

text \<open>
  C5 (as amended): for an operator symbol other than \<open>* / % ^\<close>, \<open>binaryOperator\<close> fails
  with \<open>DG.TypeError\<close> carrying the symbol when either operand is date-interpretable; it
  fails when neither is a date and both are numeric-interpretable; and when the operands
  are not both numeric-interpretable the symbol is not examined, so that the outcome is the
  one a recognised operator has (an error marker, \<open>NaN\<close> or the empty string propagated, or
  \<open>DG.TypeError\<close> carrying the symbol given).
\<close>

theorem unrecognised_operator:
  assumes "op \<noteq> ''*''" and "op \<noteq> ''/''" and "op \<noteq> ''%''" and "op \<noteq> ''^''"
  shows "(dateInterpretable h a \<or> dateInterpretable h b \<longrightarrow>
            binaryOperator h op a b = Inl (DGTypeError op)) \<and>
         (\<not> dateInterpretable h a \<and> \<not> dateInterpretable h b \<and>
          operatorNum h a \<noteq> NaN \<and> operatorNum h b \<noteq> NaN \<longrightarrow>
            (\<exists>e. binaryOperator h op a b = Inl e)) \<and>
         (\<not> (operatorNum h a \<noteq> NaN \<and> operatorNum h b \<noteq> NaN) \<longrightarrow>
            binaryOperator h op a b = binaryOperator h ''*'' a b \<or>
            (binaryOperator h op a b = Inl (DGTypeError op) \<and>
             binaryOperator h ''*'' a b = Inl (DGTypeError ''*'')))"
  using assms unfolding binaryOperator_unfold by simp

text \<open>The amended C5 at the symbol \<open>+\<close>.\<close>

theorem unrecognised_operator_witness:
  "''+'' \<noteq> ''*'' \<and> ''+'' \<noteq> ''/'' \<and> ''+'' \<noteq> ''%'' \<and> ''+'' \<noteq> ''^'' \<and>
   binaryOperator sampleHost ''+'' (VDate (Fin 0)) (VNum (Fin 2)) = Inl (DGTypeError ''+'') \<and>
   (\<exists>e. binaryOperator sampleHost ''+'' (VNum (Fin 1)) (VNum (Fin 2)) = Inl e) \<and>
   binaryOperator sampleHost ''+'' (VStr []) (VStr []) =
     binaryOperator sampleHost ''*'' (VStr []) (VStr [])"
  using unrecognised_operator [of "''+''" sampleHost "VDate (Fin 0)" "VNum (Fin 2)"]
    unrecognised_operator [of "''+''" sampleHost "VNum (Fin 1)" "VNum (Fin 2)"]
  by (simp add: sample_operatorNum dateInterpretable_def binaryOperator_unfold)

text \<open>
  C5 as stated fails: with two empty operands the call returns the empty string whatever
  the symbol is, and with two numbers the exception raised is the host's \<open>TypeError\<close>.
\<close>

theorem unrecognised_operator_counterexample:
  "binaryOperator sampleHost ''+'' (VStr []) (VStr []) = Inr (VStr []) \<and>
   binaryOperator sampleHost ''+'' (VNum (Fin 1)) (VNum (Fin 2)) =
     Inl (HostTypeError ''loc is not a function'')"
  by (simp add: binaryOperator_unfold sample_operatorNum dateInterpretable_def isNaNValue_def)

text \<open>
  C8: if either operand is date-interpretable, \<open>binaryOperator\<close> fails with \<open>DG.TypeError\<close>
  carrying the operator symbol, whatever the symbol and whatever the other operand is: a
  number, an error marker, \<open>NaN\<close> or an empty value.
\<close>

theorem binaryOperator_date_TypeError:
  "dateInterpretable h a \<or> dateInterpretable h b \<Longrightarrow>
   binaryOperator h op a b = Inl (DGTypeError op)"
  by (simp add: binaryOperator_def Let_def)

text \<open>C8 at a date and the number 2, an error marker, \<open>NaN\<close> and the empty string.\<close>

theorem binaryOperator_date_TypeError_witness:
  "dateInterpretable sampleHost (VDate (Fin 0)) \<and>
   binaryOperator sampleHost ''*'' (VDate (Fin 0)) (VNum (Fin 2)) = Inl (DGTypeError ''*'') \<and>
   binaryOperator sampleHost ''/'' (VError ''e'') (VDate (Fin 0)) = Inl (DGTypeError ''/'') \<and>
   binaryOperator sampleHost ''%'' (VDate (Fin 0)) (VNum NaN) = Inl (DGTypeError ''%'') \<and>
   binaryOperator sampleHost ''^'' (VStr []) (VDate (Fin 0)) = Inl (DGTypeError ''^'')"
  using binaryOperator_date_TypeError [of sampleHost "VDate (Fin 0)" "VNum (Fin 2)" "''*''"]
    binaryOperator_date_TypeError [of sampleHost "VError ''e''" "VDate (Fin 0)" "''/''"]
    binaryOperator_date_TypeError [of sampleHost "VDate (Fin 0)" "VNum NaN" "''%''"]
    binaryOperator_date_TypeError [of sampleHost "VStr []" "VDate (Fin 0)" "''^''"]
  by (simp add: dateInterpretable_def)

subsection \<open>Subtraction of dates\<close>

text \<open>
  C6 (as amended): for two numeric-interpretable operands, \<open>subtract\<close> returns the date
  constructed from the numeric difference when the left operand is date-interpretable and
  the right one is not, and the plain numeric difference, a number and no error, when the
  date is the right operand and the left one is not a date.
\<close>

theorem subtract_date_operands:
  assumes "starterNum h a \<noteq> NaN" and "starterNum h b \<noteq> NaN"
  shows "(dateInterpretable h a \<and> \<not> dateInterpretable h b \<longrightarrow>
            subtract h a b = Inr (dg_createDate (jminus (starterNum h a) (starterNum h b)))) \<and>
         (\<not> dateInterpretable h a \<and> dateInterpretable h b \<longrightarrow>
            subtract h a b = Inr (VNum (jminus (starterNum h a) (starterNum h b))))"
proof -
  have p: "\<not> isError a" "\<not> isError b" "\<not> isNaNValue a" "\<not> isNaNValue b"
    using starterNum_numeric [OF assms(1)] starterNum_numeric [OF assms(2)] by simp_all
  show ?thesis
    unfolding subtract_def starter_classified [OF p] using assms by simp
qed

text \<open>The amended C6 at a date of numeric value 1000 and the number 5.\<close>

theorem subtract_date_operands_witness:
  "starterNum sampleHost (VDate (Fin 1000)) \<noteq> NaN \<and>
   starterNum sampleHost (VNum (Fin 5)) \<noteq> NaN \<and>
   dateInterpretable sampleHost (VDate (Fin 1000)) \<and>
   \<not> dateInterpretable sampleHost (VNum (Fin 5)) \<and>
   subtract sampleHost (VDate (Fin 1000)) (VNum (Fin 5)) = Inr (VDate (Fin 995)) \<and>
   subtract sampleHost (VNum (Fin 5)) (VDate (Fin 1000)) = Inr (VNum (Fin (- 995)))"
  using subtract_date_operands [of sampleHost "VDate (Fin 1000)" "VNum (Fin 5)"]
    subtract_date_operands [of sampleHost "VNum (Fin 5)" "VDate (Fin 1000)"]
  by (simp add: sample_starterNum dateInterpretable_def dg_createDate_def)

text \<open>C6 as stated fails: \<open>subtract(5, date)\<close> returns a number, not a \<open>TypeError\<close>.\<close>

theorem subtract_number_minus_date_counterexample:
  "subtract sampleHost (VNum (Fin 5)) (VDate (Fin 1000)) = Inr (VNum (Fin (- 995)))"
  by (simp add: subtract_def arithmeticStarter_def isNaNValue_def sample_starterNum
      dateInterpretable_def)

subsection \<open>Empty operands\<close>

text \<open>
  C7 (as amended): when both operands are empty, or one is empty and the other is
  numeric-interpretable, \<open>add\<close>, \<open>subtract\<close>, \<open>lessThan\<close> and \<open>lessThanOrEqual\<close> return the
  empty string; so does \<open>binaryOperator\<close>, for every operator symbol, provided neither
  operand is date-interpretable. An operand is numeric-interpretable as the function at
  hand judges it. For the first four, by the classifier: the operand is not empty, is not a
  string of white space only, and its number is not NaN or, when that is NaN, the number of
  the date made from it is not NaN. For \<open>binaryOperator\<close>, by its own coercion: the operand
  is not empty, is not a string of white space only, and its number is not NaN.
\<close>

theorem empty_dominates:
  "(emptyPair (\<lambda>x. starterNum h x \<noteq> NaN) a b \<longrightarrow>
      add h a b = Inr (VStr []) \<and> subtract h a b = Inr (VStr []) \<and>
      lessThan_dg h a b = Inr (VStr []) \<and> lessThanOrEqual h a b = Inr (VStr [])) \<and>
   (emptyPair (\<lambda>x. operatorNum h x \<noteq> NaN) a b \<and>
      \<not> dateInterpretable h a \<and> \<not> dateInterpretable h b \<longrightarrow>
      binaryOperator h op a b = Inr (VStr []))"
proof (intro conjI impI)
  assume e: "emptyPair (\<lambda>x. starterNum h x \<noteq> NaN) a b"
  note c = starter_classified [OF emptyPair_starter(1-4) [OF e], of h]
  have n: "\<not> (starterNum h a \<noteq> NaN \<and> starterNum h b \<noteq> NaN)"
    by (rule emptyPair_starter(5) [OF e])
  have e': "(sc_empty a \<and> sc_empty b) \<or> (sc_empty a \<and> starterNum h b \<noteq> NaN) \<or>
            (starterNum h a \<noteq> NaN \<and> sc_empty b)"
    using e by (simp add: emptyPair_def)
  from n e' show "add h a b = Inr (VStr [])"
    unfolding add_def c by auto
  from n show "subtract h a b = Inr (VStr [])"
    unfolding subtract_def c by (auto simp add: finisher_empty(1) [OF e'])
  from n show "lessThan_dg h a b = Inr (VStr [])"
    unfolding lessThan_dg_def c by (auto simp add: finisher_empty(2) [OF e'])
  from n show "lessThanOrEqual h a b = Inr (VStr [])"
    unfolding lessThanOrEqual_def c by (auto simp add: finisher_empty(2) [OF e'])
next
  assume e: "emptyPair (\<lambda>x. operatorNum h x \<noteq> NaN) a b \<and>
      \<not> dateInterpretable h a \<and> \<not> dateInterpretable h b"
  then have d: "\<not> dateInterpretable h a" "\<not> dateInterpretable h b" by simp_all
  have e': "(sc_empty a \<and> sc_empty b) \<or> (sc_empty a \<and> operatorNum h b \<noteq> NaN) \<or>
            (operatorNum h a \<noteq> NaN \<and> sc_empty b)"
    using e by (simp add: emptyPair_def)
  have ab: "(sc_empty a \<or> operatorNum h a \<noteq> NaN) \<and> (sc_empty b \<or> operatorNum h b \<noteq> NaN)"
    using e' by blast
  have p: "\<not> isError a" "\<not> isError b" "\<not> isNaNValue a" "\<not> isNaNValue b"
    using ab operatorNum_numeric [of h a] empty_plain [of a]
      operatorNum_numeric [of h b] empty_plain [of b] by blast+
  have "sc_empty a \<or> sc_empty b" using e' by blast
  then have n: "\<not> (operatorNum h a \<noteq> NaN \<and> operatorNum h b \<noteq> NaN)"
    using operatorNum_empty [of a h] operatorNum_empty [of b h] by blast
  from n e' show "binaryOperator h op a b = Inr (VStr [])"
    unfolding binaryOperator_unfold by (auto simp add: d p)
qed

text \<open>The amended C7 at the empty string, \<open>null\<close> and the number 5.\<close>

theorem empty_dominates_witness:
  "emptyPair (\<lambda>x. starterNum sampleHost x \<noteq> NaN) (VStr []) (VNum (Fin 5)) \<and>
   emptyPair (\<lambda>x. operatorNum sampleHost x \<noteq> NaN) VNull (VNum (Fin 5)) \<and>
   \<not> dateInterpretable sampleHost VNull \<and> \<not> dateInterpretable sampleHost (VNum (Fin 5)) \<and>
   add sampleHost (VStr []) (VNum (Fin 5)) = Inr (VStr []) \<and>
   subtract sampleHost (VStr []) (VNum (Fin 5)) = Inr (VStr []) \<and>
   lessThan_dg sampleHost (VStr []) (VNum (Fin 5)) = Inr (VStr []) \<and>
   lessThanOrEqual sampleHost (VStr []) (VNum (Fin 5)) = Inr (VStr []) \<and>
   binaryOperator sampleHost ''*'' VNull (VNum (Fin 5)) = Inr (VStr [])"
  using empty_dominates [of sampleHost "VStr []" "VNum (Fin 5)"]
    empty_dominates [of sampleHost VNull "VNum (Fin 5)" "''*''"]
  by (simp add: emptyPair_def sample_starterNum operatorNum_def dateInterpretable_def)

text \<open>
  C7 as stated fails: a date object is numeric-interpretable, and \<open>binaryOperator\<close> on
  the empty string and a date raises \<open>DG.TypeError\<close>.
\<close>

theorem empty_with_date_counterexample:
  "sc_empty (VStr []) \<and> operatorNum sampleHost (VDate (Fin 0)) \<noteq> NaN \<and>
   starterNum sampleHost (VDate (Fin 0)) \<noteq> NaN \<and>
   binaryOperator sampleHost ''*'' (VStr []) (VDate (Fin 0)) = Inl (DGTypeError ''*'')"
  by (simp add: binaryOperator_unfold dateInterpretable_def operatorNum_def starterNum_def
      js_isNaN_def)

text \<open>
  A string of white space only is not numeric-interpretable for \<open>binaryOperator\<close>, although
  the host's \<open>Number\<close> of it is 0: with an empty operand beside it the dispatcher throws.
\<close>

lemma binaryOperator_empty_with_blank:
  "operatorNum sampleHost (VStr '' '') = NaN \<and>
   \<not> dateInterpretable sampleHost (VStr '' '') \<and>
   (\<exists>m. binaryOperator sampleHost ''*'' (VStr []) (VStr '' '') = Inl (DGTypeError m))"
  by (simp add: binaryOperator_unfold operatorNum_def dateInterpretable_def
      whiteSpaceRegExp_test_def isWhiteSpaceChar_def isNaNValue_def)

subsection \<open>Propagation of NaN and of error markers\<close>

text \<open>
  C9 (as amended): if either raw operand is the number \<open>NaN\<close> itself and neither operand is
  an error marker, \<open>add\<close>, \<open>subtract\<close>, \<open>lessThan\<close> and \<open>lessThanOrEqual\<close> return \<open>NaN\<close>;
  this comes before the handling of empty operands.
\<close>

theorem nan_operand_propagates:
  assumes "a = VNum NaN \<or> b = VNum NaN" and "\<not> isError a" and "\<not> isError b"
  shows "add h a b = Inr (VNum NaN) \<and> subtract h a b = Inr (VNum NaN) \<and>
         lessThan_dg h a b = Inr (VNum NaN) \<and> lessThanOrEqual h a b = Inr (VNum NaN)"
  by (simp add: add_def subtract_def lessThan_dg_def lessThanOrEqual_def starter_nan [OF assms])

text \<open>The amended C9: \<open>lessThan(NaN, 5)\<close> and \<open>add("", NaN)\<close> are \<open>NaN\<close>.\<close>

theorem nan_operand_propagates_witness:
  "lessThan_dg sampleHost (VNum NaN) (VNum (Fin 5)) = Inr (VNum NaN) \<and>
   add sampleHost (VStr []) (VNum NaN) = Inr (VNum NaN)"
  using nan_operand_propagates [of "VNum NaN" "VNum (Fin 5)" sampleHost]
    nan_operand_propagates [of "VStr []" "VNum NaN" sampleHost]
  by simp

text \<open>
  C9 as stated fails: the numeric coercion of the string \<open>"a"\<close> is \<open>NaN\<close>, yet
  \<open>lessThan("a", "b")\<close> compares the two strings and returns \<open>true\<close>.
\<close>

theorem coercion_nan_counterexample:
  "starterNum sampleHost (VStr ''a'') = NaN \<and>
   lessThan_dg sampleHost (VStr ''a'') (VStr ''b'') = Inr (VBool True) \<and>
   lessThan_dg sampleHost (VStr ''a'') (VStr ''b'') \<noteq> Inr (VNum NaN)"
  by (simp add: lessThan_dg_def arithmeticStarter_def isNaNValue_def sample_letters
      stringFinisher_def)

text \<open>
  C10: when both raw operands are error markers, \<open>add\<close>, \<open>subtract\<close>, \<open>lessThan\<close>,
  \<open>lessThanOrEqual\<close> and \<open>binaryOperator\<close> all return the left operand's error marker.
\<close>

theorem left_error_wins:
  "add h (VError m1) (VError m2) = Inr (VError m1) \<and>
   subtract h (VError m1) (VError m2) = Inr (VError m1) \<and>
   lessThan_dg h (VError m1) (VError m2) = Inr (VError m1) \<and>
   lessThanOrEqual h (VError m1) (VError m2) = Inr (VError m1) \<and>
   binaryOperator h op (VError m1) (VError m2) = Inr (VError m1)"
  by (simp add: add_def subtract_def lessThan_dg_def lessThanOrEqual_def starter_errors
      binaryOperator_def dateInterpretable_def operatorNum_def)

text \<open>C10 at two error markers with different messages.\<close>

theorem left_error_wins_witness:
  "add sampleHost (VError ''left'') (VError ''right'') = Inr (VError ''left'') \<and>
   binaryOperator sampleHost ''*'' (VError ''left'') (VError ''right'') = Inr (VError ''left'')"
  using left_error_wins [of sampleHost "''left''" "''right''" "''*''"] by simp

section \<open>The postfix evaluator against the tree-walking evaluator\<close>

lemma postfixNodes_append:
  "postfixNodes h c (xs @ ys) st s =
     (case postfixNodes h c xs st s of
        (Inl e, s1) \<Rightarrow> (Inl e, s1)
      | (Inr st1, s1) \<Rightarrow> postfixNodes h c ys st1 s1)"
  by (induction xs arbitrary: st s) (auto split: sum.splits prod.splits)

lemma postfixVisit_postorder:
  "postfixVisit t acc = acc @ postorder t"
  "postfixVisitArgs ts acc = acc @ postorderArgs ts"
  by (induction t and ts arbitrary: acc and acc rule: postorder_postorderArgs.induct) simp_all

lemma convertToPostfix_postorder: "convertToPostfix t = postorder t"
  by (simp add: convertToPostfix_def postfixVisit_postorder(1) [of t "[]"])

lemma pushed_wf: "pushed st vs st' \<Longrightarrow> 0 \<le> slen st' \<and> slen st' \<le> stackLength st'"
  by (simp add: pushed_def)

lemma pushed_nil: "0 \<le> slen st \<Longrightarrow> slen st \<le> stackLength st \<Longrightarrow> pushed st [] st"
  by (simp add: pushed_def)

lemma pushed_append:
  assumes "pushed st vs st1" and "pushed st1 ws st2"
  shows "pushed st (vs @ ws) st2"
proof -
  have a: "0 \<le> slen st" "slen st1 = slen st + int (length vs)"
    "\<forall>k < length vs. stack st1 (slen st + int k) = vs ! k"
    "\<forall>i < slen st. stack st1 i = stack st i"
    using assms(1) by (simp_all add: pushed_def)
  have b: "slen st2 = slen st1 + int (length ws)"
    "\<forall>k < length ws. stack st2 (slen st1 + int k) = ws ! k"
    "\<forall>i < slen st1. stack st2 i = stack st1 i" "slen st2 \<le> stackLength st2"
    using assms(2) by (simp_all add: pushed_def)
  have "stack st2 (slen st + int k) = (vs @ ws) ! k" if "k < length (vs @ ws)" for k
  proof (cases "k < length vs")
    case True
    then have "stack st2 (slen st + int k) = stack st1 (slen st + int k)"
      using a(2) b(3) by simp
    then show ?thesis using True a(3) by (simp add: nth_append)
  next
    case False
    then have "k - length vs < length ws" using that by simp
    then have "stack st2 (slen st1 + int (k - length vs)) = ws ! (k - length vs)"
      using b(2) by blast
    moreover have "slen st1 + int (k - length vs) = slen st + int k"
      using False a(2) by simp
    ultimately have "stack st2 (slen st + int k) = ws ! (k - length vs)" by metis
    then show ?thesis using False by (simp add: nth_append)
  qed
  moreover have "stack st2 i = stack st i" if "i < slen st" for i
    using that a(2,4) b(3) by simp
  ultimately show ?thesis
    using a(1,2) b(1,4) by (simp add: pushed_def)
qed

lemma pushed_stackPush:
  assumes "0 \<le> slen st" and "slen st \<le> stackLength st"
  shows "pushed st [v] (stackPush v st)"
  using assms by (simp add: pushed_def stackPush_def stackStore_def)

lemma pushed_single: "pushed st [v] st' \<Longrightarrow> slen st' = slen st + 1 \<and> stack st' (slen st) = v"
  by (simp add: pushed_def)

lemma stackSlice_pushed:
  assumes "pushed st vs st'"
  shows "stackSlice st' (slen st' - int (length vs)) (slen st') = vs"
proof -
  have a: "0 \<le> slen st" "slen st' = slen st + int (length vs)"
    "\<forall>k < length vs. stack st' (slen st + int k) = vs ! k" "slen st' \<le> stackLength st'"
    using assms by (simp_all add: pushed_def)
  have s: "stackSlice st' (slen st' - int (length vs)) (slen st') =
           map (stack st') [slen st..slen st + int (length vs) - 1]"
    using a(1,2,4) by (simp add: stackSlice_def Let_def min_def)
  show ?thesis unfolding s
  proof (rule nth_equalityI)
    show "length (map (stack st') [slen st..slen st + int (length vs) - 1]) = length vs"
      by simp
  next
    fix k assume "k < length (map (stack st') [slen st..slen st + int (length vs) - 1])"
    then have k: "k < length vs" by simp
    then have "[slen st..slen st + int (length vs) - 1] ! k = slen st + int k"
      by (simp add: nth_upto)
    then show "map (stack st') [slen st..slen st + int (length vs) - 1] ! k = vs ! k"
      using k a(3) by simp
  qed
qed

lemma unary_step:
  assumes "pushed st [v] st1"
  shows "\<exists>st2. postfixNode h c (UnaryExpression operator e) st1 s = (Inr st2, s) \<and>
               pushed st [unaryOperator h operator v] st2"
proof -
  have a: "0 \<le> slen st" "slen st1 = slen st + 1" "stack st1 (slen st) = v"
    "\<forall>i < slen st. stack st1 i = stack st i" "slen st1 \<le> stackLength st1"
    using assms by (simp_all add: pushed_def)
  have "slen st1 \<noteq> 0" using a(1,2) by simp
  then have "postfixNode h c (UnaryExpression operator e) st1 s =
        (Inr (stackStore (slen st) (unaryOperator h operator v) st1), s)"
    using a(2,3) by simp
  moreover have "pushed st [unaryOperator h operator v]
        (stackStore (slen st) (unaryOperator h operator v) st1)"
    using a by (simp add: pushed_def stackStore_def)
  ultimately show ?thesis by blast
qed

lemma binary_step:
  assumes "pushed st [l, r] st2"
  shows "\<exists>st3. postfixNode h c (BinaryExpression operator a b) st2 s = (Inr st3, s) \<and>
               pushed st [nativeBinaryOperator h operator l r] st3"
proof -
  have p: "0 \<le> slen st" "slen st2 = slen st + 2"
    "\<forall>k < 2. stack st2 (slen st + int k) = [l, r] ! k"
    "\<forall>i < slen st. stack st2 i = stack st i" "slen st2 \<le> stackLength st2"
    using assms by (simp_all add: pushed_def)
  have v: "stack st2 (slen st) = l" "stack st2 (slen st + 1) = r" "stack st2 (1 + slen st) = r"
    using p(3) [rule_format, of 0] p(3) [rule_format, of 1] by (simp_all add: add.commute)
  have "\<not> slen st2 < 2" using p(1,2) by simp
  then have "postfixNode h c (BinaryExpression operator a b) st2 s =
        (Inr (stackStore (slen st) (nativeBinaryOperator h operator l r)
               (st2\<lparr>slen := slen st + 1\<rparr>)), s)"
    using p(2) v by (simp add: add.commute)
  moreover have "pushed st [nativeBinaryOperator h operator l r]
        (stackStore (slen st) (nativeBinaryOperator h operator l r) (st2\<lparr>slen := slen st + 1\<rparr>))"
    using p by (simp add: pushed_def stackStore_def)
  ultimately show ?thesis by blast
qed

lemma conditional_step:
  assumes "pushed st [cv, tv, fv] st3"
  shows "\<exists>st4. postfixNode h c (ConditionalExpression a b d) st3 s = (Inr st4, s) \<and>
               pushed st [if truthy cv then tv else fv] st4"
proof -
  have p: "0 \<le> slen st" "slen st3 = slen st + 3"
    "\<forall>k < 3. stack st3 (slen st + int k) = [cv, tv, fv] ! k"
    "\<forall>i < slen st. stack st3 i = stack st i" "slen st3 \<le> stackLength st3"
    using assms by (simp_all add: pushed_def)
  have v: "stack st3 (slen st) = cv" "stack st3 (slen st + 1) = tv"
    "stack st3 (slen st + 2) = fv" "stack st3 (1 + slen st) = tv"
    "stack st3 (2 + slen st) = fv"
    using p(3) [rule_format, of 0] p(3) [rule_format, of 1] p(3) [rule_format, of 2]
    by (simp_all add: add.commute)
  have "\<not> slen st3 < 3" using p(1,2) by simp
  then have "postfixNode h c (ConditionalExpression a b d) st3 s =
        (Inr (stackStore (slen st) (if truthy cv then tv else fv)
               (st3\<lparr>slen := slen st + 1\<rparr>)), s)"
    using p(2) v by (simp add: add.commute)
  moreover have "pushed st [if truthy cv then tv else fv]
        (stackStore (slen st) (if truthy cv then tv else fv) (st3\<lparr>slen := slen st + 1\<rparr>))"
    using p by (simp add: pushed_def stackStore_def)
  ultimately show ?thesis by blast
qed

lemma call_step:
  assumes "pushed st vs st1" and "length args = length vs"
  shows "case evaluateFunction c f vs s of
           (Inl e, s1) \<Rightarrow> postfixNode h c (FunctionCall f args) st1 s = (Inl e, s1)
         | (Inr result, s1) \<Rightarrow>
             (\<exists>st2. postfixNode h c (FunctionCall f args) st1 s = (Inr st2, s1) \<and>
                    pushed st [result] st2)"
proof -
  have p: "0 \<le> slen st" "slen st1 = slen st + int (length vs)"
    "\<forall>i < slen st. stack st1 i = stack st i" "slen st1 \<le> stackLength st1"
    using assms(1) by (simp_all add: pushed_def)
  have sl: "(if int (length args) \<noteq> 0
             then stackSlice st1 (slen st1 - int (length args)) (slen st1) else []) = vs"
    using stackSlice_pushed [OF assms(1)] assms(2) by auto
  have idx: "slen st1 - (int (length args) - 1) - 1 = slen st"
    "slen st1 - (int (length args) - 1) = slen st + 1"
    using p(2) assms(2) by simp_all
  obtain r s1 where ev: "evaluateFunction c f vs s = (r, s1)" by (cases "evaluateFunction c f vs s")
  show ?thesis
  proof (cases r)
    case (Inl e)
    have "postfixNode h c (FunctionCall f args) st1 s = (Inl e, s1)"
      unfolding postfixNode.simps Let_def sl idx ev Inl by simp
    then show ?thesis using Inl ev by simp
  next
    case (Inr result)
    have "postfixNode h c (FunctionCall f args) st1 s =
            (Inr (stackStore (slen st) result (st1\<lparr>slen := slen st + 1\<rparr>)), s1)"
      unfolding postfixNode.simps Let_def sl idx ev Inr by simp
    moreover have "pushed st [result] (stackStore (slen st) result (st1\<lparr>slen := slen st + 1\<rparr>))"
      using p by (simp add: pushed_def stackStore_def)
    ultimately show ?thesis using Inr ev by simp
  qed
qed

lemma tracks_both:
  assumes "tracks h c xs st s r1"
    and "\<And>vs s1 st1. r1 = (Inr vs, s1) \<Longrightarrow> 0 \<le> slen st1 \<Longrightarrow> slen st1 \<le> stackLength st1 \<Longrightarrow>
           tracks h c ys st1 s1 (r2 s1)"
  shows "tracks h c (xs @ ys) st s (both r1 r2)"
proof -
  obtain x s1 where r1: "r1 = (x, s1)" by (cases r1)
  show ?thesis
  proof (cases x)
    case (Inl e)
    then show ?thesis
      using assms(1) r1 by (simp add: tracks_def both_def postfixNodes_append)
  next
    case x: (Inr vs)
    then obtain st1 where st1: "postfixNodes h c xs st s = (Inr st1, s1)" "pushed st vs st1"
      using assms(1) r1 by (auto simp: tracks_def)
    have t2: "tracks h c ys st1 s1 (r2 s1)"
      using assms(2) [of vs s1 st1] r1 x pushed_wf [OF st1(2)] by simp
    obtain y s2 where r2: "r2 s1 = (y, s2)" by (cases "r2 s1")
    show ?thesis
    proof (cases y)
      case (Inl e)
      then show ?thesis
        using t2 st1(1) r1 x r2 by (simp add: tracks_def both_def postfixNodes_append)
    next
      case (Inr ws)
      then obtain st2 where st2: "postfixNodes h c ys st1 s1 = (Inr st2, s2)" "pushed st1 ws st2"
        using t2 r2 by (auto simp: tracks_def)
      have "postfixNodes h c (xs @ ys) st s = (Inr st2, s2)"
        by (simp add: postfixNodes_append st1(1) st2(1))
      then show ?thesis
        using pushed_append [OF st1(2) st2(2)] r1 x r2 Inr by (auto simp: tracks_def both_def)
    qed
  qed
qed

lemma tracks_node:
  assumes "tracks h c xs st s r"
    and "\<And>vs s1 st1. r = (Inr vs, s1) \<Longrightarrow> pushed st vs st1 \<Longrightarrow>
           (case f vs s1 of
              (Inl e, s2) \<Rightarrow> postfixNode h c n st1 s1 = (Inl e, s2)
            | (Inr v, s2) \<Rightarrow> (\<exists>st2. postfixNode h c n st1 s1 = (Inr st2, s2) \<and> pushed st [v] st2))"
  shows "tracks h c (xs @ [n]) st s
           (single (case r of (Inl e, s1) \<Rightarrow> (Inl e, s1) | (Inr vs, s1) \<Rightarrow> f vs s1))"
proof -
  obtain x s1 where r: "r = (x, s1)" by (cases r)
  show ?thesis
  proof (cases x)
    case (Inl e)
    then show ?thesis
      using assms(1) r by (simp add: tracks_def single_def postfixNodes_append)
  next
    case x: (Inr vs)
    then obtain st1 where st1: "postfixNodes h c xs st s = (Inr st1, s1)" "pushed st vs st1"
      using assms(1) r by (auto simp: tracks_def)
    have step: "case f vs s1 of
              (Inl e, s2) \<Rightarrow> postfixNode h c n st1 s1 = (Inl e, s2)
            | (Inr v, s2) \<Rightarrow> (\<exists>st2. postfixNode h c n st1 s1 = (Inr st2, s2) \<and> pushed st [v] st2)"
      using assms(2) [of vs s1 st1] r x st1(2) by simp
    obtain y s2 where f: "f vs s1 = (y, s2)" by (cases "f vs s1")
    show ?thesis
    proof (cases y)
      case (Inl e)
      then show ?thesis
        using step st1(1) r x f by (simp add: tracks_def single_def postfixNodes_append)
    next
      case (Inr v)
      then obtain st2 where "postfixNode h c n st1 s1 = (Inr st2, s2)" "pushed st [v] st2"
        using step f by auto
      then show ?thesis
        using st1(1) r x f Inr by (auto simp: tracks_def single_def postfixNodes_append)
    qed
  qed
qed

lemma tracks_leaf:
  assumes "0 \<le> slen st" and "slen st \<le> stackLength st"
    and "postfixNode h c n st s =
           (case r of (Inl e, s1) \<Rightarrow> (Inl e, s1) | (Inr v, s1) \<Rightarrow> (Inr (stackPush v st), s1))"
  shows "tracks h c [n] st s (single r)"
proof -
  obtain x s1 where r: "r = (x, s1)" by (cases r)
  show ?thesis
    using assms(3) pushed_stackPush [OF assms(1,2)] r
    by (cases x) (auto simp: tracks_def single_def)
qed

lemma evaluateArgs_length:
  "evaluateArgs h c ec ts s = (Inr vs, s') \<Longrightarrow> length vs = length ts"
  by (induction ts arbitrary: vs s s') (auto split: sum.splits prod.splits)

lemma postfixTreeArgs_length:
  "postfixTreeArgs h c ts s = (Inr vs, s') \<Longrightarrow> length vs = length ts"
  by (induction ts arbitrary: vs s s') (auto split: sum.splits prod.splits)

lemma binary_result:
  "(case both (single (postfixTree h c l s)) (\<lambda>s1. single (postfixTree h c r s1)) of
      (Inl e, s1) \<Rightarrow> (Inl e, s1)
    | (Inr vs, s1) \<Rightarrow> (Inr (nativeBinaryOperator h operator (vs ! 0) (vs ! 1)), s1))
   = postfixTree h c (BinaryExpression operator l r) s"
  by (simp add: single_def both_def split: prod.splits sum.splits)

lemma conditional_result:
  "(case both (single (postfixTree h c condition s))
           (\<lambda>s1. both (single (postfixTree h c t s1))
                    (\<lambda>s2. single (postfixTree h c f s2))) of
      (Inl e, s1) \<Rightarrow> (Inl e, s1)
    | (Inr vs, s1) \<Rightarrow> (Inr (if truthy (vs ! 0) then vs ! 1 else vs ! 2), s1))
   = postfixTree h c (ConditionalExpression condition t f) s"
  by (simp add: single_def both_def split: prod.splits sum.splits)

lemma single_Inr:
  "single r = (Inr vs, s1) \<Longrightarrow> \<exists>v. r = (Inr v, s1) \<and> vs = [v]"
  by (auto simp: single_def split: prod.splits sum.splits)

lemma both_two:
  "both (single r1) (\<lambda>s1. single (r2 s1)) = (Inr vs, s2) \<Longrightarrow> \<exists>a b. vs = [a, b]"
  by (auto simp: single_def both_def split: prod.splits sum.splits)

lemma both_three:
  "both (single r1) (\<lambda>s1. both (single (r2 s1)) (\<lambda>s2. single (r3 s2))) = (Inr vs, s3)
   \<Longrightarrow> \<exists>a b d. vs = [a, b, d]"
  by (auto simp: single_def both_def split: prod.splits sum.splits)

text \<open>
  The run of the postfix evaluator over the flattening of any tree, from any stack with
  room left, throws what \<open>postfixTree\<close> throws or pushes the one value it returns, with the
  same state of the context.
\<close>

lemma postfix_run:
  fixes st :: pstack
  shows "0 \<le> slen st \<Longrightarrow> slen st \<le> stackLength st \<Longrightarrow>
           tracks h c (postorder t) st s (single (postfixTree h c t s))"
    and "0 \<le> slen st \<Longrightarrow> slen st \<le> stackLength st \<Longrightarrow>
           tracks h c (postorderArgs ts) st s (postfixTreeArgs h c ts s)"
proof (induction h c t s and h c ts s arbitrary: st and st
    rule: postfixTree_postfixTreeArgs.induct)
  case (1 h c b s)
  show ?case
    using tracks_leaf [OF "1.prems", of h c "BooleanLiteral b" s "(Inr (VBool b), s)"]
    by simp
next
  case (2 h c n s)
  show ?case
    using tracks_leaf [OF "2.prems", of h c "NumericLiteral n" s "(Inr (VNum n), s)"]
    by simp
next
  case (3 h c v s)
  show ?case
    using tracks_leaf [OF "3.prems", of h c "StringLiteral v" s "(Inr (VStr v), s)"]
    by simp
next
  case (4 h c x s)
  have "postfixNode h c (Variable x) st s =
          (case evaluateVariable c x None s of
             (Inl e, s1) \<Rightarrow> (Inl e, s1) | (Inr v, s1) \<Rightarrow> (Inr (stackPush v st), s1))"
    by simp
  from tracks_leaf [OF "4.prems" this] show ?case by simp
next
  case (5 h c f args s)
  have args: "tracks h c (postorderArgs args) st s (postfixTreeArgs h c args s)"
    by (rule "5.IH" [OF "5.prems"])
  have "tracks h c (postorderArgs args @ [FunctionCall f args]) st s
          (single (case postfixTreeArgs h c args s of
                     (Inl e, s1) \<Rightarrow> (Inl e, s1) | (Inr vs, s1) \<Rightarrow> evaluateFunction c f vs s1))"
  proof (rule tracks_node [OF args])
    fix vs s1 st1
    assume "postfixTreeArgs h c args s = (Inr vs, s1)" and "pushed st vs st1"
    then show "case evaluateFunction c f vs s1 of
                 (Inl e, s2) \<Rightarrow> postfixNode h c (FunctionCall f args) st1 s1 = (Inl e, s2)
               | (Inr v, s2) \<Rightarrow>
                   \<exists>st2. postfixNode h c (FunctionCall f args) st1 s1 = (Inr st2, s2) \<and>
                         pushed st [v] st2"
      using call_step [where st = st and vs = vs and ?st1.0 = st1 and args = args and c = c
          and f = f and h = h and s = s1] postfixTreeArgs_length [of h c args s vs s1]
      by (simp del: postfixNode.simps)
  qed
  then show ?case by (simp only: postorder.simps postfixTree.simps)
next
  case (6 h c operator expression s)
  have e: "tracks h c (postorder expression) st s
             (single (postfixTree h c expression s))"
    by (rule "6.IH" [OF "6.prems"])
  have res: "(case single (postfixTree h c expression s) of
                (Inl e, s1) \<Rightarrow> (Inl e, s1)
              | (Inr vs, s1) \<Rightarrow> (Inr (unaryOperator h operator (hd vs)), s1))
             = postfixTree h c (UnaryExpression operator expression) s"
    by (cases "postfixTree h c expression s")
       (simp add: single_def split: sum.splits)
  have "tracks h c (postorder expression @ [UnaryExpression operator expression]) st s
          (single (case single (postfixTree h c expression s) of
                     (Inl e, s1) \<Rightarrow> (Inl e, s1)
                   | (Inr vs, s1) \<Rightarrow> (Inr (unaryOperator h operator (hd vs)), s1)))"
  proof (rule tracks_node [OF e])
    fix vs s1 st1
    assume sr: "single (postfixTree h c expression s) = (Inr vs, s1)"
      and p: "pushed st vs st1"
    obtain v where "vs = [v]" using single_Inr [OF sr] by auto
    then show "case (Inr (unaryOperator h operator (hd vs)), s1) of
                 (Inl e, s2) \<Rightarrow>
                   postfixNode h c (UnaryExpression operator expression) st1 s1 = (Inl e, s2)
               | (Inr v, s2) \<Rightarrow>
                   \<exists>st2. postfixNode h c (UnaryExpression operator expression) st1 s1
                           = (Inr st2, s2) \<and> pushed st [v] st2"
      using unary_step [where st = st and v = v and ?st1.0 = st1 and h = h and c = c
          and operator = operator and e = expression and s = s1] p
      by (simp del: postfixNode.simps)
  qed
  then show ?case
    by (simp only: res postorder.simps)
next
  case (7 h c operator l r s)
  have l: "tracks h c (postorder l) st s (single (postfixTree h c l s))"
    by (rule "7.IH"(1) [OF "7.prems"])
  have r: "tracks h c (postorder r) st1 s1 (single (postfixTree h c r s1))"
    if sl: "single (postfixTree h c l s) = (Inr vs, s1)"
      and w1: "0 \<le> slen st1" "slen st1 \<le> stackLength st1" for vs s1 st1
  proof -
    obtain lv where lv: "postfixTree h c l s = (Inr lv, s1)"
      using single_Inr [OF sl] by auto
    show ?thesis by (rule "7.IH"(2) [OF lv [symmetric] refl w1])
  qed
  have lr: "tracks h c (postorder l @ postorder r) st s
              (both (single (postfixTree h c l s))
                    (\<lambda>s1. single (postfixTree h c r s1)))"
    by (rule tracks_both [OF l r])
  have "tracks h c ((postorder l @ postorder r) @ [BinaryExpression operator l r]) st s
          (single (case both (single (postfixTree h c l s))
                               (\<lambda>s1. single (postfixTree h c r s1)) of
                     (Inl e, s1) \<Rightarrow> (Inl e, s1)
                   | (Inr vs, s1) \<Rightarrow>
                       (Inr (nativeBinaryOperator h operator (vs ! 0) (vs ! 1)), s1)))"
  proof (rule tracks_node [OF lr])
    fix vs s2 st2
    assume br: "both (single (postfixTree h c l s))
              (\<lambda>s1. single (postfixTree h c r s1)) = (Inr vs, s2)"
      and p: "pushed st vs st2"
    obtain lv rv where "vs = [lv, rv]" using both_two [OF br] by auto
    then show "case (Inr (nativeBinaryOperator h operator (vs ! 0) (vs ! 1)), s2) of
                 (Inl e, s3) \<Rightarrow>
                   postfixNode h c (BinaryExpression operator l r) st2 s2 = (Inl e, s3)
               | (Inr v, s3) \<Rightarrow>
                   \<exists>st3. postfixNode h c (BinaryExpression operator l r) st2 s2 = (Inr st3, s3) \<and>
                         pushed st [v] st3"
      using binary_step [where st = st and l = lv and r = rv and ?st2.0 = st2 and h = h
          and c = c and operator = operator and a = l and b = r and s = s2] p
      by (simp del: postfixNode.simps)
  qed
  then show ?case
    by (simp only: binary_result postorder.simps append_assoc)
next
  case (8 h c condition t f s)
  have cnd: "tracks h c (postorder condition) st s
               (single (postfixTree h c condition s))"
    by (rule "8.IH"(1) [OF "8.prems"])
  have tf: "tracks h c (postorder t @ postorder f) st1 s1
              (both (single (postfixTree h c t s1))
                    (\<lambda>s2. single (postfixTree h c f s2)))"
    if c1: "single (postfixTree h c condition s) = (Inr vs, s1)"
      and w1: "0 \<le> slen st1" "slen st1 \<le> stackLength st1" for vs s1 st1
  proof -
    obtain v where v: "postfixTree h c condition s = (Inr v, s1)"
      using single_Inr [OF c1] by auto
    have t: "tracks h c (postorder t) st1 s1 (single (postfixTree h c t s1))"
      by (rule "8.IH"(2) [OF v [symmetric] refl w1])
    have f: "tracks h c (postorder f) st2 s2 (single (postfixTree h c f s2))"
      if t1: "single (postfixTree h c t s1) = (Inr ws, s2)"
        and w2: "0 \<le> slen st2" "slen st2 \<le> stackLength st2" for ws s2 st2
    proof -
      obtain tv where tv: "postfixTree h c t s1 = (Inr tv, s2)"
        using single_Inr [OF t1] by auto
      show ?thesis
        by (rule "8.IH"(3) [OF v [symmetric] refl tv [symmetric] refl w2])
    qed
    show ?thesis by (rule tracks_both [OF t f])
  qed
  have ctf: "tracks h c (postorder condition @ postorder t @ postorder f) st s
              (both (single (postfixTree h c condition s))
                 (\<lambda>s1. both (single (postfixTree h c t s1))
                          (\<lambda>s2. single (postfixTree h c f s2))))"
    by (rule tracks_both [OF cnd tf])
  have "tracks h c ((postorder condition @ postorder t @ postorder f)
                      @ [ConditionalExpression condition t f]) st s
          (single (case both (single (postfixTree h c condition s))
                          (\<lambda>s1. both (single (postfixTree h c t s1))
                                   (\<lambda>s2. single (postfixTree h c f s2))) of
                     (Inl e, s1) \<Rightarrow> (Inl e, s1)
                   | (Inr vs, s1) \<Rightarrow> (Inr (if truthy (vs ! 0) then vs ! 1 else vs ! 2), s1)))"
  proof (rule tracks_node [OF ctf])
    fix vs s3 st3
    assume br: "both (single (postfixTree h c condition s))
              (\<lambda>s1. both (single (postfixTree h c t s1))
                       (\<lambda>s2. single (postfixTree h c f s2))) = (Inr vs, s3)"
      and p: "pushed st vs st3"
    obtain cv tv fv where "vs = [cv, tv, fv]" using both_three [OF br] by auto
    then show "case (Inr (if truthy (vs ! 0) then vs ! 1 else vs ! 2), s3) of
                 (Inl e, s4) \<Rightarrow>
                   postfixNode h c (ConditionalExpression condition t f) st3 s3 = (Inl e, s4)
               | (Inr v, s4) \<Rightarrow>
                   \<exists>st4. postfixNode h c (ConditionalExpression condition t f) st3 s3
                           = (Inr st4, s4) \<and> pushed st [v] st4"
      using conditional_step [where st = st and cv = cv and tv = tv and fv = fv
          and ?st3.0 = st3 and h = h and c = c and a = condition and b = t and d = f
          and s = s3] p
      by (auto simp del: postfixNode.simps)
  qed
  then show ?case
    by (simp only: conditional_result postorder.simps append_assoc)
next
  case (9 h c s)
  then show ?case by (simp add: tracks_def pushed_nil)
next
  case (10 h c a as s)
  have a: "tracks h c (postorder a) st s (single (postfixTree h c a s))"
    by (rule "10.IH"(1) [OF "10.prems"])
  have as: "tracks h c (postorderArgs as) st1 s1 (postfixTreeArgs h c as s1)"
    if sa: "single (postfixTree h c a s) = (Inr vs, s1)"
      and w1: "0 \<le> slen st1" "slen st1 \<le> stackLength st1" for vs s1 st1
  proof -
    obtain v where v: "postfixTree h c a s = (Inr v, s1)"
      using single_Inr [OF sa] by auto
    show ?thesis by (rule "10.IH"(2) [OF v [symmetric] refl w1])
  qed
  have tb: "tracks h c (postorder a @ postorderArgs as) st s
          (both (single (postfixTree h c a s)) (\<lambda>s1. postfixTreeArgs h c as s1))"
    by (rule tracks_both [OF a as])
  have eq: "both (single (postfixTree h c a s)) (\<lambda>s1. postfixTreeArgs h c as s1)
                   = postfixTreeArgs h c (a # as) s"
    by (simp add: single_def both_def split: prod.splits sum.splits)
  show ?case using tb by (simp only: eq postorderArgs.simps)
qed

text \<open>So the postfix evaluator computes \<open>postfixTree\<close>, on every tree.\<close>

lemma evaluatePostfix_postfixTree:
  "evaluatePostfix h c (convertToPostfix t) s = postfixTree h c t s"
proof -
  let ?st = "\<lparr>stack = (\<lambda>i. VUndefined), stackLength = int (length (postorder t)), slen = 0\<rparr>"
  have t: "tracks h c (postorder t) ?st s (single (postfixTree h c t s))"
    by (rule postfix_run(1)) simp_all
  obtain x s1 where r: "postfixTree h c t s = (x, s1)"
    by (cases "postfixTree h c t s")
  show ?thesis
  proof (cases x)
    case (Inl e)
    then show ?thesis
      using t r by (simp add: tracks_def single_def evaluatePostfix_def convertToPostfix_postorder)
  next
    case (Inr v)
    then obtain st' where st': "postfixNodes h c (postorder t) ?st s = (Inr st', s1)"
      "pushed ?st [v] st'"
      using t r by (auto simp: tracks_def single_def)
    have "slen st' = 1" "stack st' 0 = v"
      using pushed_single [OF st'(2)] by simp_all
    then show ?thesis
      using st'(1) Inr r by (simp add: evaluatePostfix_def convertToPostfix_postorder)
  qed
qed

text \<open>
  On finite numbers and booleans the type-coercion runtime returns what the host's
  operators return.
\<close>

lemma plainNumeric_facts:
  assumes "plainNumeric v"
  shows "starterNum h v = js_Number h v" "operatorNum h v = js_Number h v"
    "js_Number h v \<noteq> NaN" "\<not> dateInterpretable h v" "\<not> isError v" "\<not> isNaNValue v"
    "toPrimitiveDefault h v = v" "toPrimitiveNumber h v = v" "\<not> isString v"
  using assms
  by (cases v rule: plainNumeric.cases;
      simp add: starterNum_def operatorNum_def js_isNaN_def dateInterpretable_def isNaNValue_def)+

lemma plain_starter:
  assumes "plainNumeric l" and "plainNumeric r"
  shows "arithmeticStarter h l r = Classified \<lparr>
            isNumeric1 = True, isNumeric2 = True, isDate1 = False, isDate2 = False,
            empty1 = sc_empty l, empty2 = sc_empty r,
            num1 = js_Number h l, num2 = js_Number h r \<rparr>"
  using plainNumeric_facts [OF assms(1)] plainNumeric_facts [OF assms(2)]
  by (simp add: arithmeticStarter_def)

lemma plain_operators:
  assumes "plainNumeric l" and "plainNumeric r"
  shows "add h l r = Inr (js_plus h l r)"
    and "subtract h l r = Inr (VNum (jminus (js_Number h l) (js_Number h r)))"
    and "lessThan_dg h l r = Inr (VBool (js_less h l r))"
    and "lessThanOrEqual h l r = Inr (VBool (js_lesseq h l r))"
    and "operator = ''*'' \<or> operator = ''/'' \<or> operator = ''%'' \<or> operator = ''^'' \<Longrightarrow>
         binaryOperator h operator l r = Inr (VNum (h_arith h operator (js_Number h l) (js_Number h r)))"
  using plainNumeric_facts [OF assms(1)] plainNumeric_facts [OF assms(2)]
  by (simp_all add: add_def subtract_def lessThan_dg_def lessThanOrEqual_def
      plain_starter [OF assms] js_plus_def js_less_def js_lesseq_def binaryOperator_unfold)

lemma agreeing_visit:
  assumes "agreeingOperands operator l r"
  shows "visitBinaryOperator h operator l r = Inr (nativeBinaryOperator h operator l r)"
proof (cases "hostOperator operator")
  case True
  then show ?thesis
    by (auto simp: hostOperator_def visitBinaryOperator_def nativeBinaryOperator_def)
next
  case False
  then have p: "coercingOperator operator" "plainNumeric l" "plainNumeric r"
    using assms by (simp_all add: agreeingOperands_def)
  note ops = plain_operators [OF p(2,3)] plain_operators [OF p(3,2)]
  show ?thesis
    using p(1) unfolding coercingOperator_def visitBinaryOperator_def nativeBinaryOperator_def
    by (elim disjE) (simp_all add: ops)
qed

lemma quiet_Inr: "quiet r s \<Longrightarrow> \<exists>v. r = (Inr v, s)"
  by (cases r) (auto simp: quiet_def split: sum.splits)

text \<open>On a comparable tree the tree walker computes \<open>postfixTree\<close> too.\<close>

lemma comparable_postfixTree:
  shows "comparable h c ec t s \<Longrightarrow> postfixTree h c t s = evaluateParseTree h c ec t s"
    and "comparableArgs h c ec ts s \<Longrightarrow> postfixTreeArgs h c ts s = evaluateArgs h c ec ts s"
proof (induction h c ec t s and h c ec ts s rule: comparable_comparableArgs.induct)
  case (1 h c ec b s)
  show ?case by simp
next
  case (2 h c ec n s)
  show ?case by simp
next
  case (3 h c ec v s)
  show ?case by simp
next
  case (4 h c ec x s)
  then show ?case by simp
next
  case (5 h c ec f args s)
  then show ?case by simp
next
  case (6 h c ec operator expression s)
  then show ?case by simp
next
  case (7 h c ec operator l r s)
  note cmp = "7.prems"
  have cl: "comparable h c ec l s" using cmp by simp
  have l: "postfixTree h c l s = evaluateParseTree h c ec l s"
    by (rule "7.IH"(1) [OF cl])
  obtain x s1 where el: "evaluateParseTree h c ec l s = (x, s1)"
    by (cases "evaluateParseTree h c ec l s")
  show ?case
  proof (cases x)
    case (Inl e)
    then show ?thesis using l el by simp
  next
    case (Inr lv)
    note lv = el [unfolded Inr]
    have cr: "comparable h c ec r s1" using cmp lv by simp
    have r: "postfixTree h c r s1 = evaluateParseTree h c ec r s1"
      by (rule "7.IH"(2) [OF lv [symmetric] refl cr])
    obtain y s2 where er: "evaluateParseTree h c ec r s1 = (y, s2)"
      by (cases "evaluateParseTree h c ec r s1")
    show ?thesis
    proof (cases y)
      case (Inl e)
      then show ?thesis using l lv r er by simp
    next
      case (Inr rv)
      have "agreeingOperands operator lv rv" using cmp lv er Inr by simp
      then show ?thesis using l lv r er Inr by (simp add: agreeing_visit)
    qed
  qed
next
  case (8 h c ec condition t f s)
  note cmp = "8.prems"
  have cc: "comparable h c ec condition s" using cmp by simp
  have cnd: "postfixTree h c condition s = evaluateParseTree h c ec condition s"
    by (rule "8.IH"(1) [OF cc])
  obtain x s1 where ec: "evaluateParseTree h c ec condition s = (x, s1)"
    by (cases "evaluateParseTree h c ec condition s")
  show ?case
  proof (cases x)
    case (Inl e)
    then show ?thesis using cnd ec by simp
  next
    case (Inr v)
    note cv = ec [unfolded Inr]
    show ?thesis
    proof (cases "truthy v")
      case True
      have ct: "comparable h c ec t s1" using cmp cv True by simp
      have t: "postfixTree h c t s1 = evaluateParseTree h c ec t s1"
        by (rule "8.IH"(2) [OF cv [symmetric] refl True ct])
      obtain y s2 where et: "evaluateParseTree h c ec t s1 = (y, s2)"
        by (cases "evaluateParseTree h c ec t s1")
      show ?thesis
      proof (cases y)
        case (Inl e)
        then show ?thesis using cnd cv t et True by simp
      next
        case (Inr tv)
        have "quiet (evaluatePostfix h c (convertToPostfix f) s2) s2"
          using cmp cv True et Inr by simp
        then have "quiet (postfixTree h c f s2) s2"
          by (simp only: evaluatePostfix_postfixTree)
        from quiet_Inr [OF this] obtain fv where "postfixTree h c f s2 = (Inr fv, s2)" ..
        then show ?thesis using cnd cv t et Inr True by simp
      qed
    next
      case False
      have "quiet (evaluatePostfix h c (convertToPostfix t) s1) s1"
        using cmp cv False by simp
      then have "quiet (postfixTree h c t s1) s1"
        by (simp only: evaluatePostfix_postfixTree)
      from quiet_Inr [OF this] obtain tv where t: "postfixTree h c t s1 = (Inr tv, s1)" ..
      have cf: "comparable h c ec f s1" using cmp cv False by simp
      have f: "postfixTree h c f s1 = evaluateParseTree h c ec f s1"
        by (rule "8.IH"(3) [OF cv [symmetric] refl False cf])
      show ?thesis using cnd cv t f False
        by (simp split: prod.splits sum.splits)
    qed
  qed
next
  case (9 h c ec s)
  show ?case by simp
next
  case (10 h c ec a as s)
  note cmp = "10.prems"
  have ca: "comparable h c ec a s" using cmp by simp
  have a: "postfixTree h c a s = evaluateParseTree h c ec a s"
    by (rule "10.IH"(1) [OF ca])
  obtain x s1 where ea: "evaluateParseTree h c ec a s = (x, s1)"
    by (cases "evaluateParseTree h c ec a s")
  show ?case
  proof (cases x)
    case (Inl e)
    then show ?thesis using a ea by simp
  next
    case (Inr v)
    note v = ea [unfolded Inr]
    have cas: "comparableArgs h c ec as s1" using cmp v by simp
    have "postfixTreeArgs h c as s1 = evaluateArgs h c ec as s1"
      by (rule "10.IH"(2) [OF v [symmetric] refl cas])
    then show ?thesis using a v by simp
  qed
qed

text \<open>
  C2 (as amended): take a syntax tree, a context in some state and an evaluation-time
  context such that, along the evaluation of the tree by the tree walker, every variable
  is one the context evaluates to the same outcome with the evaluation-time context as
  without one; every binary operator is one of \<open>== === != !== && ||\<close>, or is one of
  \<open>^ * / % + - < > <= >=\<close> with two operand values that are finite numbers or booleans; and
  in every conditional expression the postfix evaluator runs the branch that is not taken
  without an exception and without changing the state of the context. Then evaluating the
  postfix flattening of the tree with the postfix evaluator yields the same result, or
  raises the same exception, as evaluating the tree with the tree-walking evaluator, and
  leaves the context in the same state.
\<close>

theorem postfix_agrees_on_comparable_trees:
  assumes "comparable h c ec t s"
  shows "evaluatePostfix h c (convertToPostfix t) s = evaluateParseTree h c ec t s"
  using comparable_postfixTree(1) [OF assms] by (simp only: evaluatePostfix_postfixTree)

lemma sampleContext_fields [simp]:
  "evaluateVariable sampleContext x ec s =
     (case ec of None \<Rightarrow> Inr VUndefined | Some v \<Rightarrow> Inr v, s)"
  "evaluateFunction sampleContext f vs s =
     (if f = ''count'' then (Inr (VNum (Fin (real (length vs)))), s)
      else if f = ''next'' then (Inr (VNum (Fin (real (Suc s)))), Suc s)
      else (Inl (ContextError f), s))"
  by (simp_all add: sampleContext_def)

lemma sample_sum_less:
  "visitBinaryOperator sampleHost ''+'' (VNum (Fin 1)) (VNum (Fin 2)) = Inr (VNum (Fin 3))"
  "visitBinaryOperator sampleHost ''<'' (VNum (Fin 3)) (VNum (Fin 4)) = Inr (VBool True)"
  by (simp_all add: visitBinaryOperator_def plain_operators js_plus_def js_less_def)

text \<open>
  The amended C2 on the sample context, from the counter 0: a conditional expression whose
  condition \<open>1 + 2 < 4\<close> goes through the type-coercion runtime in the tree walker, whose
  true branch advances the counter and whose false branch, not taken, calls a function
  without effect on a string the two evaluators add differently; and a tree whose function
  call throws in both evaluators.
\<close>

theorem postfix_agrees_on_comparable_trees_witness:
  "comparable sampleHost sampleContext None
     (ConditionalExpression
        (BinaryExpression ''<''
           (BinaryExpression ''+'' (NumericLiteral (Fin 1)) (NumericLiteral (Fin 2)))
           (NumericLiteral (Fin 4)))
        (FunctionCall ''next'' [])
        (FunctionCall ''count''
           [BinaryExpression ''+'' (StringLiteral ''1'') (StringLiteral ''2''),
            UnaryExpression ''!'' (BooleanLiteral False)]))
     0 \<and>
   evaluatePostfix sampleHost sampleContext
     (convertToPostfix
        (ConditionalExpression
           (BinaryExpression ''<''
              (BinaryExpression ''+'' (NumericLiteral (Fin 1)) (NumericLiteral (Fin 2)))
              (NumericLiteral (Fin 4)))
           (FunctionCall ''next'' [])
           (FunctionCall ''count''
              [BinaryExpression ''+'' (StringLiteral ''1'') (StringLiteral ''2''),
               UnaryExpression ''!'' (BooleanLiteral False)])))
     0 = (Inr (VNum (Fin 1)), 1) \<and>
   comparable sampleHost sampleContext (Some (VNum (Fin 7)))
     (BinaryExpression ''&&'' (BooleanLiteral True) (FunctionCall ''missing'' [])) 0 \<and>
   evaluatePostfix sampleHost sampleContext
     (convertToPostfix
        (BinaryExpression ''&&'' (BooleanLiteral True) (FunctionCall ''missing'' []))) 0
     = (Inl (ContextError ''missing''), 0)"
  using postfix_agrees_on_comparable_trees [of sampleHost sampleContext None
      "ConditionalExpression
        (BinaryExpression ''<''
           (BinaryExpression ''+'' (NumericLiteral (Fin 1)) (NumericLiteral (Fin 2)))
           (NumericLiteral (Fin 4)))
        (FunctionCall ''next'' [])
        (FunctionCall ''count''
           [BinaryExpression ''+'' (StringLiteral ''1'') (StringLiteral ''2''),
            UnaryExpression ''!'' (BooleanLiteral False)])"
      0]
    postfix_agrees_on_comparable_trees [of sampleHost sampleContext "Some (VNum (Fin 7))"
      "BinaryExpression ''&&'' (BooleanLiteral True) (FunctionCall ''missing'' [])" 0]
  by (simp add: sample_sum_less agreeingOperands_def hostOperator_def coercingOperator_def
      quiet_def unaryOperator_def evaluatePostfix_postfixTree)

lemma sample_digit_strings:
  "starterNum sampleHost (VStr ''1'') = Fin 1"
  "starterNum sampleHost (VStr ''2'') = Fin 2"
  by (simp_all add: starterNum_def whiteSpaceRegExp_test_def isWhiteSpaceChar_def js_isNaN_def
      sample_strToNum_def)

lemma add_one_two:
  "add sampleHost (VStr ''1'') (VStr ''2'') = Inr (VNum (Fin 3))"
  by (simp add: add_def arithmeticStarter_def isNaNValue_def sample_digit_strings
      dateInterpretable_def whiteSpaceRegExp_test_def isWhiteSpaceChar_def)

text \<open>
  C2 as stated fails. The postfix evaluator applies the host's own operators, so
  \<open>"1" + "2"\<close> is the text \<open>"12"\<close> there and the number 3 in the tree walker. And it
  evaluates both branches of a conditional expression: on \<open>false ? next() : next()\<close> it
  advances the counter of the sample context twice and returns 2, where the tree walker
  advances it once and returns 1; on \<open>true ? 1 : missing()\<close> it raises the exception of
  the branch that is not taken.
\<close>

theorem postfix_differs_counterexample:
  "evaluateParseTree sampleHost sampleContext None
     (BinaryExpression ''+'' (StringLiteral ''1'') (StringLiteral ''2'')) 0
     = (Inr (VNum (Fin 3)), 0) \<and>
   evaluatePostfix sampleHost sampleContext
     (convertToPostfix (BinaryExpression ''+'' (StringLiteral ''1'') (StringLiteral ''2''))) 0
     = (Inr (VStr ''12''), 0) \<and>
   evaluateParseTree sampleHost sampleContext None
     (ConditionalExpression (BooleanLiteral False) (FunctionCall ''next'' [])
        (FunctionCall ''next'' [])) 0 = (Inr (VNum (Fin 1)), 1) \<and>
   evaluatePostfix sampleHost sampleContext
     (convertToPostfix
        (ConditionalExpression (BooleanLiteral False) (FunctionCall ''next'' [])
           (FunctionCall ''next'' []))) 0 = (Inr (VNum (Fin 2)), 2) \<and>
   evaluateParseTree sampleHost sampleContext None
     (ConditionalExpression (BooleanLiteral True) (NumericLiteral (Fin 1))
        (FunctionCall ''missing'' [])) 0 = (Inr (VNum (Fin 1)), 0) \<and>
   evaluatePostfix sampleHost sampleContext
     (convertToPostfix
        (ConditionalExpression (BooleanLiteral True) (NumericLiteral (Fin 1))
           (FunctionCall ''missing'' []))) 0 = (Inl (ContextError ''missing''), 0)"
  by (simp add: convertToPostfix_def evaluatePostfix_def visitBinaryOperator_def add_one_two
      stackPush_def stackStore_def nativeBinaryOperator_def js_plus_def)

text \<open>
  The property \<open>evaluatePostfix\<close> of a formula passes the evaluation-time context as a third
  argument, and \<open>DG.Formula.evaluatePostfix\<close> declares two parameters: a variable that
  depends on that context is evaluated without it.
\<close>

lemma postfix_variable_without_evaluation_context:
  "evaluateParseTree sampleHost sampleContext (Some (VNum (Fin 7))) (Variable ''x'') 0
     = (Inr (VNum (Fin 7)), 0) \<and>
   evaluatePostfix sampleHost sampleContext (convertToPostfix (Variable ''x'')) 0
     = (Inr VUndefined, 0)"
  by (simp add: convertToPostfix_def evaluatePostfix_def stackPush_def stackStore_def)

section \<open>The code generator and the compiled property\<close>

lemma sampleCompileContext_fields [simp]:
  "compileVariable sampleCompileContext x indices s =
     (if x = ''known'' then (Inr (''e.'' @ x), s) else (Inl (ContextError x), s))"
  "getAggregateFunctionIndices sampleCompileContext s = []"
  "willCompile sampleCompileContext s = 0"
  "didCompile sampleCompileContext s = s"
  "completeCompile sampleCompileContext s = s"
  by (simp_all add: sampleCompileContext_def)

lemma sample_print_one: "sample_numToStr (Fin 1) = ''1''"
  by (simp add: sample_numToStr_def digitsOf.simps [of "Suc 0"])

text \<open>
  C3: the generated code against the tree-walking evaluator. The tree walker evaluates the
  operators \<open>==\<close> and \<open>!=\<close> as strict comparisons, so that \<open>1 == "1"\<close> is \<open>false\<close>; the code
  generator emits the operator as it stands, the text \<open>1=="1"\<close>, which the host evaluates
  with its loose equality. A unary operator applied to a unary expression is emitted
  without parentheses: the negation of \<open>-1\<close>, which the tree walker evaluates to 1, becomes
  the text \<open>--1\<close>.
\<close>

theorem equality_compiles_to_loose_equality:
  "evaluateParseTree sampleHost sampleContext None
     (BinaryExpression ''=='' (NumericLiteral (Fin 1)) (StringLiteral ''1'')) 0
     = (Inr (VBool False), 0) \<and>
   compileToJavaScript sampleHost sampleCompileContext
     (BinaryExpression ''=='' (NumericLiteral (Fin 1)) (StringLiteral ''1'')) 0
     = (Inr (''1=='' @ doubleQuote @ ''1'' @ doubleQuote), 0) \<and>
   evaluateParseTree sampleHost sampleContext None
     (UnaryExpression ''-'' (UnaryExpression ''-'' (NumericLiteral (Fin 1)))) 0
     = (Inr (VNum (Fin 1)), 0) \<and>
   compileToJavaScript sampleHost sampleCompileContext
     (UnaryExpression ''-'' (UnaryExpression ''-'' (NumericLiteral (Fin 1)))) 0
     = (Inr ''--1'', 0)"
  by (simp add: visitBinaryOperator_def unaryOperator_def compileToJavaScript_def visitTerm_def
      binaryExpressionText_def sample_print_one escapeQuotes_def)

text \<open>
  C4 (as amended): a recomputation of \<open>compiled\<close> that has a parse tree invokes
  \<open>willCompile\<close> once, before the tree is walked. When code generation returns, \<open>didCompile\<close>
  and then \<open>completeCompile\<close> are invoked once each after it; when code generation throws,
  the exception propagates and neither of the two is invoked. Without a parse tree (an
  empty source, or a parse error) no hook is invoked.
\<close>

theorem compiled_hooks:
  "(parsed = Inr (Some tree) \<and>
    compileToJavaScript h c tree (willCompile c s) = (Inr js, s') \<longrightarrow>
      compiled h c parsed (s, calls) =
        (Inr (Some js),
         (completeCompile c (didCompile c s'), calls @ [WillCompile, DidCompile, CompleteCompile]))) \<and>
   (parsed = Inr (Some tree) \<and>
    compileToJavaScript h c tree (willCompile c s) = (Inl e, s') \<longrightarrow>
      compiled h c parsed (s, calls) = (Inl e, (s', calls @ [WillCompile]))) \<and>
   (parsed = Inr None \<longrightarrow> compiled h c parsed (s, calls) = (Inr None, (s, calls))) \<and>
   (parsed = Inl e \<longrightarrow> compiled h c parsed (s, calls) = (Inl e, (s, calls)))"
  by (simp add: compiled_def invoke_def Let_def)

text \<open>The amended C4 on the sample context: a known variable, an unknown one, no tree.\<close>

theorem compiled_hooks_witness:
  "compileToJavaScript sampleHost sampleCompileContext (Variable ''known'')
     (willCompile sampleCompileContext 5) = (Inr ''e.known'', 0) \<and>
   compiled sampleHost sampleCompileContext (Inr (Some (Variable ''known''))) (5, [])
     = (Inr (Some ''e.known''), (0, [WillCompile, DidCompile, CompleteCompile])) \<and>
   compileToJavaScript sampleHost sampleCompileContext (Variable ''x'')
     (willCompile sampleCompileContext 5) = (Inl (ContextError ''x''), 0) \<and>
   compiled sampleHost sampleCompileContext (Inr (Some (Variable ''x''))) (5, [])
     = (Inl (ContextError ''x''), (0, [WillCompile])) \<and>
   compiled sampleHost sampleCompileContext (Inr None) (5, []) = (Inr None, (5, []))"
  using compiled_hooks [where parsed = "Inr (Some (Variable ''known''))"
      and tree = "Variable ''known''" and h = sampleHost and c = sampleCompileContext
      and s = 5 and js = "''e.known''" and s' = 0 and calls = "[]"]
    compiled_hooks [where parsed = "Inr (Some (Variable ''x''))"
      and tree = "Variable ''x''" and h = sampleHost and c = sampleCompileContext
      and s = 5 and s' = 0 and calls = "[]" and e = "ContextError ''x''"]
    compiled_hooks [where parsed = "Inr None" and h = sampleHost
      and c = sampleCompileContext and s = 5 and calls = "[]"]
  by (simp add: compileToJavaScript_def)

text \<open>
  C4 as stated fails: when \<open>compileVariable\<close> throws, the only hook invoked is
  \<open>willCompile\<close>; and with no parse tree none is.
\<close>

theorem compiled_hooks_counterexample:
  "compiled sampleHost sampleCompileContext (Inr (Some (Variable ''x''))) (5, [])
     = (Inl (ContextError ''x''), (0, [WillCompile])) \<and>
   compiled sampleHost sampleCompileContext (Inr None) (5, []) = (Inr None, (5, []))"
  by (simp add: compiled_def invoke_def compileToJavaScript_def)

end
